theory Spec2Isabelle
  imports Main "HOL-Library.Char_ord" "HOL-Library.List_Lexorder" "HOL-Library.Word"
begin

section \<open>JavaScript values and strings\<close>

text \<open>
  The hybrid storage layer of the repository (\<^verbatim>\<open>src/hybrid-storage.ts\<close>) and its relational
  adapter (\<^verbatim>\<open>src/database.ts\<close>) are embedded as functions on an explicit store. A JavaScript
  string is a \<^typ>\<open>string\<close>: a list of 8-bit code units, compared code unit by code unit
  (the order of \<^verbatim>\<open>Array.prototype.sort\<close> without a comparator). Numbers are the integers
  the code produces (clock readings, flags).
\<close>

type_synonym buffer = "8 word list"

datatype jsval =
    JUndefined
  | JNull
  | JBool bool
  | JNum int
  | JStr string
  | JDate int
  | JArr "jsval list"
  | JObj "(string \<times> jsval) list"

text \<open>\<^verbatim>\<open>Number.prototype.toString()\<close> on an integer: its decimal digits, with a sign.\<close>

definition digit_char :: "nat \<Rightarrow> char" where
  "digit_char n = ''0123456789abcdef'' ! n"

fun dec_nat :: "nat \<Rightarrow> string" where
  "dec_nat n = (if n < 10 then [digit_char n] else dec_nat (n div 10) @ [digit_char (n mod 10)])"

definition toString :: "int \<Rightarrow> string" where
  "toString i = (if i < 0 then CHR ''-'' # dec_nat (nat (- i)) else dec_nat (nat i))"

text \<open>\<^verbatim>\<open>String.prototype.includes\<close>: the argument occurs as a contiguous run of code units.\<close>

fun starts_with :: "string \<Rightarrow> string \<Rightarrow> bool" where
  "starts_with s [] = True"
| "starts_with [] (p # ps) = False"
| "starts_with (c # cs) (p # ps) = (c = p \<and> starts_with cs ps)"

fun str_includes :: "string \<Rightarrow> string \<Rightarrow> bool" where
  "str_includes [] sub = (sub = [])"
| "str_includes (c # cs) sub = (starts_with (c # cs) sub \<or> str_includes cs sub)"

text \<open>\<^verbatim>\<open>Array.prototype.join\<close> with the separator \<^verbatim>\<open>,\<close>.\<close>

fun join :: "string list \<Rightarrow> string" where
  "join [] = []"
| "join [x] = x"
| "join (x # y # ys) = x @ '','' @ join (y # ys)"

subsection \<open>JSON.stringify with an array replacer\<close>

text \<open>QuoteJSONString: the two-character escapes, \<^verbatim>\<open>\u00XX\<close> for the other control characters.\<close>

definition quote_char :: "char \<Rightarrow> string" where
  "quote_char c =
     (if c = CHR 0x08 then [CHR 0x5C, CHR ''b'']
      else if c = CHR 0x09 then [CHR 0x5C, CHR ''t'']
      else if c = CHR 0x0A then [CHR 0x5C, CHR ''n'']
      else if c = CHR 0x0C then [CHR 0x5C, CHR ''f'']
      else if c = CHR 0x0D then [CHR 0x5C, CHR ''r'']
      else if c = CHR 0x22 then [CHR 0x5C, CHR 0x22]
      else if c = CHR 0x5C then [CHR 0x5C, CHR 0x5C]
      else if (of_char c :: nat) < 32
        then [CHR 0x5C, CHR ''u'', CHR ''0'', CHR ''0'',
              digit_char ((of_char c :: nat) div 16), digit_char ((of_char c :: nat) mod 16)]
      else [c])"

definition quote :: "string \<Rightarrow> string" where
  "quote s = CHR 0x22 # concat (map quote_char s) @ [CHR 0x22]"

text \<open>
  The property list of an array replacer: its strings, each kept at its first occurrence.
\<close>

definition property_list :: "string list \<Rightarrow> string list" where
  "property_list ks = fold (\<lambda>k acc. if k \<in> set acc then acc else acc @ [k]) ks []"

text \<open>
  SerializeJSONProperty, with the property list \<open>K\<close> in force at every nesting level:
  \<open>None\<close> is JavaScript's \<^verbatim>\<open>undefined\<close> (the member is left out of an object and written
  \<^verbatim>\<open>null\<close> in an array). A \<^verbatim>\<open>Date\<close> is written through its \<^verbatim>\<open>toJSON\<close>, the runtime's
  \<^verbatim>\<open>toISOString\<close>, taken as the parameter \<open>toISO\<close>. An object's members are written in the
  order of \<open>K\<close>, not in the order of the object's own keys.
\<close>

fun serialize :: "(int \<Rightarrow> string) \<Rightarrow> string list \<Rightarrow> jsval \<Rightarrow> string option" where
  "serialize toISO K JUndefined = None"
| "serialize toISO K JNull = Some ''null''"
| "serialize toISO K (JBool b) = Some (if b then ''true'' else ''false'')"
| "serialize toISO K (JNum n) = Some (toString n)"
| "serialize toISO K (JStr s) = Some (quote s)"
| "serialize toISO K (JDate t) = Some (quote (toISO t))"
| "serialize toISO K (JArr xs) =
     Some (''['' @ join (map (\<lambda>x. case serialize toISO K x of None \<Rightarrow> ''null'' | Some s \<Rightarrow> s) xs) @ '']'')"
| "serialize toISO K (JObj kvs) =
     Some (''{'' @ join (List.map_filter
        (\<lambda>k. case map_of (map (\<lambda>(k', v). (k', serialize toISO K v)) kvs) k of
               Some (Some s) \<Rightarrow> Some (quote k @ '':'' @ s)
             | _ \<Rightarrow> None) K) @ ''}'')"

text \<open>\<^verbatim>\<open>Object.keys\<close> of the values the code hashes: an object's own keys, a string's indices.\<close>

fun object_keys :: "jsval \<Rightarrow> string list" where
  "object_keys (JObj kvs) = map fst kvs"
| "object_keys (JStr s) = map (\<lambda>i. toString (int i)) [0..<length s]"
| "object_keys (JArr xs) = map (\<lambda>i. toString (int i)) [0..<length xs]"
| "object_keys v = []"

text \<open>
  \<^verbatim>\<open>JSON.stringify(data, Object.keys(data).sort())\<close>. A top-level \<^verbatim>\<open>undefined\<close> is not
  hashed by any caller; it is written as the empty string here.
\<close>

definition stringify_sorted :: "(int \<Rightarrow> string) \<Rightarrow> jsval \<Rightarrow> string" where
  "stringify_sorted toISO data =
     (case serialize toISO (property_list (sort (object_keys data))) data of
        None \<Rightarrow> [] | Some s \<Rightarrow> s)"

text \<open>
  \<^verbatim>\<open>generateHash\<close>: the digest of that string. Node's SHA-256 (\<^verbatim>\<open>createHash('sha256')\<close>,
  hex output) is the parameter \<open>sha256\<close>.
\<close>

definition generateHash :: "(string \<Rightarrow> string) \<Rightarrow> (int \<Rightarrow> string) \<Rightarrow> jsval \<Rightarrow> string" where
  "generateHash sha256 toISO data = sha256 (stringify_sorted toISO data)"

section \<open>The relational store (src/database.ts)\<close>

text \<open>
  The tables of \<^verbatim>\<open>initializeDatabase\<close>, each a list of rows in insertion order. A column
  that may be NULL holds an \<^typ>\<open>'a option\<close>; a timestamp is the milliseconds of a
  JavaScript \<^verbatim>\<open>Date\<close>. The pool and the server are taken to be reachable. An \<^verbatim>\<open>INSERT\<close> or
  \<^verbatim>\<open>UPDATE\<close> fails as the server makes it fail: on a text value with the character NUL, on a
  timestamp outside the server's range, on a value too long for its \<^verbatim>\<open>VARCHAR\<close> column, on
  NULL in a \<^verbatim>\<open>NOT NULL\<close> column, and on a primary key that is taken, in this order. The
  priority of a contact and the two choice fields of an application are strings: the
  TypeScript unions are not checked at run time, and callers pass text as they got it.
\<close>

text \<open>\<^verbatim>\<open>Partial<Contact>\<close>, the fields \<^verbatim>\<open>addContact\<close> reads; \<open>None\<close> is \<^verbatim>\<open>undefined\<close>.\<close>

record ContactData =
  d_name :: "string option"
  d_position :: "string option"
  d_company :: "string option"
  d_email :: "string option"
  d_phone :: "string option"
  d_linkedin :: "string option"
  d_github :: "string option"
  d_telegram :: "string option"
  d_lens :: "string option"
  d_farcaster :: "string option"
  d_ens :: "string option"
  d_location :: "string option"
  d_goal :: "string option"
  d_notes :: "string option"
  d_tags :: "string list option"
  d_priority :: "string option"
  d_source :: "string option"
  d_photoPath :: "string option"
  d_photoFileId :: "string option"
  d_photoTakenAt :: "int option"
  d_hasFacialData :: "bool option"

text \<open>A row of the table \<^verbatim>\<open>contacts\<close>; \<open>None\<close> is NULL.\<close>

record contact_row =
  r_id :: string
  r_user_id :: string
  r_name :: string
  r_position :: "string option"
  r_company :: "string option"
  r_email :: "string option"
  r_phone :: "string option"
  r_linkedin :: "string option"
  r_github :: "string option"
  r_telegram :: "string option"
  r_lens :: "string option"
  r_farcaster :: "string option"
  r_ens :: "string option"
  r_location :: "string option"
  r_goal :: "string option"
  r_notes :: "string option"
  r_tags :: "string list option"
  r_priority :: string
  r_created_at :: int
  r_source :: "string option"
  r_photo_path :: "string option"
  r_photo_file_id :: "string option"
  r_photo_taken_at :: "int option"
  r_has_facial_data :: "bool option"

text \<open>
  The \<^verbatim>\<open>Contact\<close> object \<^verbatim>\<open>mapRowToContact\<close> builds. An optional string is \<open>None\<close> where
  the row holds NULL (the object then holds \<^verbatim>\<open>null\<close>); \<open>c_photoTakenAt\<close> is \<open>None\<close> where
  the object holds \<^verbatim>\<open>undefined\<close>.
\<close>

record Contact =
  c_id :: string
  c_userId :: string
  c_name :: string
  c_position :: "string option"
  c_company :: "string option"
  c_email :: "string option"
  c_phone :: "string option"
  c_linkedin :: "string option"
  c_github :: "string option"
  c_telegram :: "string option"
  c_lens :: "string option"
  c_farcaster :: "string option"
  c_ens :: "string option"
  c_location :: "string option"
  c_goal :: "string option"
  c_notes :: "string option"
  c_tags :: "string list"
  c_priority :: string
  c_createdAt :: int
  c_source :: "string option"
  c_photoPath :: "string option"
  c_photoFileId :: "string option"
  c_photoTakenAt :: "int option"
  c_hasFacialData :: bool

datatype error =
    InvalidByteSequence
  | DatetimeFieldOverflow
  | StringDataRightTruncation nat
  | NotNullViolation string
  | UniqueViolation string
  | PinataNotInitialized
  | PinataError string
  | DataNotFound
  | HashNotFound nat

text \<open>
  The errors the operations end with. The first five are the server's:
  \<open>InvalidByteSequence\<close> (22021) for a text value that holds NUL, \<open>DatetimeFieldOverflow\<close>
  (22008) for a timestamp it does not take, \<open>StringDataRightTruncation n\<close> (22001,
  \<^verbatim>\<open>value too long for type character varying(n)\<close>), \<open>NotNullViolation\<close> (23502, with the
  column) and \<open>UniqueViolation\<close> (23505, with the constraint) for a primary key that is taken;
  \<open>PinataNotInitialized\<close> is \<^verbatim>\<open>'Pinata not initialized. ...'\<close>; \<open>PinataError\<close> is an error
  of the upload that is thrown on, with its message; \<open>DataNotFound\<close> is
  \<^verbatim>\<open>'Data not found in PostgreSQL'\<close>; \<open>HashNotFound n\<close> is
  \<^verbatim>\<open>'Hash not found in GolemDB after n attempts. ...'\<close>.
\<close>

text \<open>\<^verbatim>\<open>s || d\<close> on an optional string: \<^verbatim>\<open>undefined\<close> and the empty string are falsy.\<close>

definition or_str :: "string option \<Rightarrow> string \<Rightarrow> string" where
  "or_str v d = (case v of None \<Rightarrow> d | Some s \<Rightarrow> if s = [] then d else s)"

subsection \<open>The server's checks on the values of a statement\<close>

text \<open>
  A text parameter must not hold the character NUL. A value assigned to a
  \<^verbatim>\<open>VARCHAR(n)\<close> column is too long when it has more than \<open>n\<close> characters and a character
  past the \<open>n\<close>-th is not a space; a value whose excess is spaces only is stored cut to
  \<open>n\<close> characters, so what is stored of a value that is not too long is \<open>take n\<close> of it.
  (A character is a code unit here.) \<open>first_error\<close> is the first check that fails.
\<close>

definition has_nul :: "string \<Rightarrow> bool" where
  "has_nul s = (CHR 0x00 \<in> set s)"

definition present :: "'a option \<Rightarrow> 'a list" where
  "present v = (case v of None \<Rightarrow> [] | Some x \<Rightarrow> [x])"

definition nul_error :: "string list \<Rightarrow> error option" where
  "nul_error texts = (if \<exists>s \<in> set texts. has_nul s then Some InvalidByteSequence else None)"

definition timestamp_error :: "(int \<Rightarrow> bool) \<Rightarrow> int option \<Rightarrow> error option" where
  "timestamp_error accepted v =
     (case v of None \<Rightarrow> None | Some t \<Rightarrow> if accepted t then None else Some DatetimeFieldOverflow)"

definition too_long :: "nat \<Rightarrow> string \<Rightarrow> bool" where
  "too_long n s = (n < length s \<and> (\<exists>c \<in> set (drop n s). c \<noteq> CHR '' ''))"

definition too_long_column :: "nat \<times> string option \<Rightarrow> bool" where
  "too_long_column col = (case snd col of None \<Rightarrow> False | Some s \<Rightarrow> too_long (fst col) s)"

definition first_too_long :: "(nat \<times> string option) list \<Rightarrow> error option" where
  "first_too_long cols =
     map_option (\<lambda>col. StringDataRightTruncation (fst col)) (find too_long_column cols)"

definition first_null :: "(string \<times> bool) list \<Rightarrow> error option" where
  "first_null cols = map_option (\<lambda>col. NotNullViolation (fst col)) (find snd cols)"

fun first_error :: "error option list \<Rightarrow> error option" where
  "first_error [] = None"
| "first_error (None # checks) = first_error checks"
| "first_error (Some e # checks) = Some e"

subsection \<open>Contacts\<close>

definition mapRowToContact :: "contact_row \<Rightarrow> Contact" where
  "mapRowToContact row =
     \<lparr> c_id = r_id row,
       c_userId = r_user_id row,
       c_name = r_name row,
       c_position = r_position row,
       c_company = r_company row,
       c_email = r_email row,
       c_phone = r_phone row,
       c_linkedin = r_linkedin row,
       c_github = r_github row,
       c_telegram = r_telegram row,
       c_lens = r_lens row,
       c_farcaster = r_farcaster row,
       c_ens = r_ens row,
       c_location = r_location row,
       c_goal = r_goal row,
       c_notes = r_notes row,
       c_tags = (case r_tags row of None \<Rightarrow> [] | Some ts \<Rightarrow> ts),
       c_priority = r_priority row,
       c_createdAt = r_created_at row,
       c_source = r_source row,
       c_photoPath = r_photo_path row,
       c_photoFileId = r_photo_file_id row,
       c_photoTakenAt = r_photo_taken_at row,
       c_hasFacialData = (case r_has_facial_data row of None \<Rightarrow> False | Some b \<Rightarrow> b) \<rparr>"

text \<open>
  \<^verbatim>\<open>DatabaseContactManager.addContact\<close>: the identifier is \<^verbatim>\<open>Date.now().toString()\<close>, the
  name defaults to \<^verbatim>\<open>'Unknown'\<close>, the row is inserted and read back (\<^verbatim>\<open>RETURNING *\<close>).
  \<open>now\<close> is the clock of the call. \<open>new_contact_row\<close> is the object \<^verbatim>\<open>contact\<close> whose fields
  are the parameters of the \<^verbatim>\<open>INSERT\<close>; \<open>contact_row_error\<close> is the server's verdict on them
  (the text and timestamp parameters in their order \<^verbatim>\<open>$1\<close> to \<^verbatim>\<open>$23\<close>, then the columns of
  the table with their lengths); \<open>stored_contact_row\<close> is the row the table then holds.
  Which timestamps the driver and the server take is not in the source: it is the
  parameter \<open>accepted\<close>.
\<close>

definition new_contact_row :: "int \<Rightarrow> string \<Rightarrow> ContactData \<Rightarrow> contact_row" where
  "new_contact_row now userId contactData =
     \<lparr> r_id = toString now,
       r_user_id = userId,
       r_name = or_str (d_name contactData) ''Unknown'',
       r_position = d_position contactData,
       r_company = d_company contactData,
       r_email = d_email contactData,
       r_phone = d_phone contactData,
       r_linkedin = d_linkedin contactData,
       r_github = d_github contactData,
       r_telegram = d_telegram contactData,
       r_lens = d_lens contactData,
       r_farcaster = d_farcaster contactData,
       r_ens = d_ens contactData,
       r_location = d_location contactData,
       r_goal = d_goal contactData,
       r_notes = d_notes contactData,
       r_tags = Some (case d_tags contactData of None \<Rightarrow> [] | Some ts \<Rightarrow> ts),
       r_priority = or_str (d_priority contactData) ''medium'',
       r_created_at = now,
       r_source = d_source contactData,
       r_photo_path = d_photoPath contactData,
       r_photo_file_id = d_photoFileId contactData,
       r_photo_taken_at = d_photoTakenAt contactData,
       r_has_facial_data = Some (case d_hasFacialData contactData of None \<Rightarrow> False | Some b \<Rightarrow> b) \<rparr>"

definition contact_row_error :: "(int \<Rightarrow> bool) \<Rightarrow> contact_row \<Rightarrow> error option" where
  "contact_row_error accepted contact =
     first_error
       [nul_error
          ([r_id contact, r_user_id contact, r_name contact]
           @ present (r_position contact) @ present (r_company contact) @ present (r_email contact)
           @ present (r_phone contact) @ present (r_linkedin contact) @ present (r_github contact)
           @ present (r_telegram contact) @ present (r_lens contact) @ present (r_farcaster contact)
           @ present (r_ens contact) @ present (r_location contact) @ present (r_goal contact)
           @ present (r_notes contact) @ concat (present (r_tags contact))
           @ [r_priority contact]),
        timestamp_error accepted (Some (r_created_at contact)),
        nul_error
          (present (r_source contact) @ present (r_photo_path contact)
           @ present (r_photo_file_id contact)),
        timestamp_error accepted (r_photo_taken_at contact),
        first_too_long
          [(255, Some (r_id contact)), (255, Some (r_user_id contact)), (255, Some (r_name contact)),
           (255, r_position contact), (255, r_company contact), (255, r_email contact),
           (255, r_phone contact), (500, r_linkedin contact), (500, r_github contact),
           (255, r_telegram contact), (255, r_lens contact), (255, r_farcaster contact),
           (255, r_ens contact), (255, r_location contact), (50, Some (r_priority contact)),
           (255, r_source contact), (500, r_photo_path contact), (500, r_photo_file_id contact)]]"

definition stored_contact_row :: "contact_row \<Rightarrow> contact_row" where
  "stored_contact_row contact =
     \<lparr> r_id = take 255 (r_id contact),
       r_user_id = take 255 (r_user_id contact),
       r_name = take 255 (r_name contact),
       r_position = map_option (take 255) (r_position contact),
       r_company = map_option (take 255) (r_company contact),
       r_email = map_option (take 255) (r_email contact),
       r_phone = map_option (take 255) (r_phone contact),
       r_linkedin = map_option (take 500) (r_linkedin contact),
       r_github = map_option (take 500) (r_github contact),
       r_telegram = map_option (take 255) (r_telegram contact),
       r_lens = map_option (take 255) (r_lens contact),
       r_farcaster = map_option (take 255) (r_farcaster contact),
       r_ens = map_option (take 255) (r_ens contact),
       r_location = map_option (take 255) (r_location contact),
       r_goal = r_goal contact,
       r_notes = r_notes contact,
       r_tags = r_tags contact,
       r_priority = take 50 (r_priority contact),
       r_created_at = r_created_at contact,
       r_source = map_option (take 255) (r_source contact),
       r_photo_path = map_option (take 500) (r_photo_path contact),
       r_photo_file_id = map_option (take 500) (r_photo_file_id contact),
       r_photo_taken_at = r_photo_taken_at contact,
       r_has_facial_data = r_has_facial_data contact \<rparr>"

definition db_addContact ::
  "contact_row list \<Rightarrow> (int \<Rightarrow> bool) \<Rightarrow> int \<Rightarrow> string \<Rightarrow> ContactData
     \<Rightarrow> error + (contact_row list \<times> Contact)" where
  "db_addContact tbl accepted now userId contactData =
     (let contact = new_contact_row now userId contactData in
      case contact_row_error accepted contact of
        Some e \<Rightarrow> Inl e
      | None \<Rightarrow>
          (let row = stored_contact_row contact in
           if r_id row \<in> r_id ` set tbl then Inl (UniqueViolation ''contacts_pkey'')
           else Inr (tbl @ [row], mapRowToContact row)))"

text \<open>
  \<^verbatim>\<open>ORDER BY created_at DESC\<close>: a stable sort of the rows, so rows of one instant keep
  the order of the table.
\<close>

definition order_by_created_at_desc :: "contact_row list \<Rightarrow> contact_row list" where
  "order_by_created_at_desc rows = sort_key (\<lambda>r. - r_created_at r) rows"

definition db_getUserContacts :: "contact_row list \<Rightarrow> string \<Rightarrow> Contact list" where
  "db_getUserContacts tbl userId =
     map mapRowToContact (order_by_created_at_desc (filter (\<lambda>r. r_user_id r = userId) tbl))"

text \<open>
  SQL's \<^verbatim>\<open>LOWER\<close> on the letters A to Z, and \<^verbatim>\<open>LIKE\<close>: \<^verbatim>\<open>%\<close> matches any run of
  characters, \<^verbatim>\<open>_\<close> any one character, a backslash takes the next character literally.
  A comparison with NULL is not true. (A pattern of \<^verbatim>\<open>searchContacts\<close> ends with \<^verbatim>\<open>%\<close>, so
  no pattern ends with a lone backslash.)
\<close>

definition lower_char :: "char \<Rightarrow> char" where
  "lower_char c =
     (case map_of (zip ''ABCDEFGHIJKLMNOPQRSTUVWXYZ'' ''abcdefghijklmnopqrstuvwxyz'') c of
        None \<Rightarrow> c
      | Some l \<Rightarrow> l)"

definition LOWER :: "string \<Rightarrow> string" where
  "LOWER s = map lower_char s"

fun like :: "string \<Rightarrow> string \<Rightarrow> bool" where
  "like s [] = (s = [])"
| "like s (p # ps) =
     (if p = CHR ''%'' then
        (like s ps \<or> (case s of [] \<Rightarrow> False | c # cs \<Rightarrow> like cs (p # ps)))
      else if p = CHR ''_'' then
        (case s of [] \<Rightarrow> False | c # cs \<Rightarrow> like cs ps)
      else if p = CHR 0x5C then
        (case ps of [] \<Rightarrow> False
         | q # qs \<Rightarrow> (case s of [] \<Rightarrow> False | c # cs \<Rightarrow> c = q \<and> like cs qs))
      else
        (case s of [] \<Rightarrow> False | c # cs \<Rightarrow> c = p \<and> like cs ps))"

definition lower_like :: "string option \<Rightarrow> string \<Rightarrow> bool" where
  "lower_like col pat = (case col of None \<Rightarrow> False | Some s \<Rightarrow> like (LOWER s) (LOWER pat))"

definition search_matches :: "contact_row \<Rightarrow> string \<Rightarrow> bool" where
  "search_matches r pat =
     (lower_like (Some (r_name r)) pat \<or>
      lower_like (r_company r) pat \<or>
      lower_like (r_position r) pat \<or>
      lower_like (r_email r) pat \<or>
      lower_like (r_linkedin r) pat \<or>
      lower_like (r_github r) pat \<or>
      lower_like (r_telegram r) pat \<or>
      lower_like (r_location r) pat \<or>
      lower_like (r_source r) pat \<or>
      (case r_tags r of None \<Rightarrow> False | Some ts \<Rightarrow> \<exists>tag \<in> set ts. lower_like (Some tag) pat))"

definition db_searchContacts :: "contact_row list \<Rightarrow> string \<Rightarrow> string \<Rightarrow> Contact list" where
  "db_searchContacts tbl userId query =
     (let searchTerm = ''%'' @ query @ ''%'' in
      map mapRowToContact (order_by_created_at_desc
        (filter (\<lambda>r. r_user_id r = userId \<and> search_matches r searchTerm) tbl)))"

text \<open>
  \<^verbatim>\<open>DELETE FROM contacts WHERE user_id = $1 AND id = $2\<close>; the answer is
  \<^verbatim>\<open>rowCount > 0\<close>.
\<close>

definition db_deleteContact :: "contact_row list \<Rightarrow> string \<Rightarrow> string \<Rightarrow> bool \<times> contact_row list" where
  "db_deleteContact tbl userId contactId =
     (length (filter (\<lambda>r. r_user_id r = userId \<and> r_id r = contactId) tbl) > 0,
      filter (\<lambda>r. \<not> (r_user_id r = userId \<and> r_id r = contactId)) tbl)"

text \<open>The \<^verbatim>\<open>photoData\<close> argument of \<^verbatim>\<open>addPhotoToContact\<close>.\<close>

record photoData =
  photoPath :: "string option"
  photoFileId :: "string option"
  photoTakenAt :: "int option"
  hasFacialData :: "bool option"

text \<open>
  \<^verbatim>\<open>UPDATE contacts SET photo_path, photo_file_id, photo_taken_at, has_facial_data
  WHERE user_id = $5 AND id = $6\<close>; the answer is \<^verbatim>\<open>rowCount > 0\<close>. The server checks the
  parameters of the statement whether or not a row matches.
\<close>

definition photo_update_error ::
  "(int \<Rightarrow> bool) \<Rightarrow> int \<Rightarrow> string \<Rightarrow> string \<Rightarrow> photoData \<Rightarrow> error option" where
  "photo_update_error accepted now userId contactId pd =
     first_error
       [nul_error (present (photoPath pd) @ present (photoFileId pd)),
        timestamp_error accepted (Some (case photoTakenAt pd of None \<Rightarrow> now | Some t \<Rightarrow> t)),
        nul_error [userId, contactId],
        first_too_long [(500, photoPath pd), (500, photoFileId pd)]]"

definition db_addPhotoToContact ::
  "contact_row list \<Rightarrow> (int \<Rightarrow> bool) \<Rightarrow> int \<Rightarrow> string \<Rightarrow> string \<Rightarrow> photoData
     \<Rightarrow> error + (bool \<times> contact_row list)" where
  "db_addPhotoToContact tbl accepted now userId contactId pd =
     (case photo_update_error accepted now userId contactId pd of
        Some e \<Rightarrow> Inl e
      | None \<Rightarrow>
          Inr (length (filter (\<lambda>r. r_user_id r = userId \<and> r_id r = contactId) tbl) > 0,
               map (\<lambda>r. if r_user_id r = userId \<and> r_id r = contactId
                         then r\<lparr> r_photo_path := map_option (take 500) (photoPath pd),
                                 r_photo_file_id := map_option (take 500) (photoFileId pd),
                                 r_photo_taken_at :=
                                   Some (case photoTakenAt pd of None \<Rightarrow> now | Some t \<Rightarrow> t),
                                 r_has_facial_data :=
                                   Some (case hasFacialData pd of None \<Rightarrow> False | Some b \<Rightarrow> b) \<rparr>
                         else r) tbl))"

subsection \<open>Builder applications\<close>

text \<open>
  The intake form of \<^verbatim>\<open>createBaseBuilder\<close>: a \<^verbatim>\<open>BaseBuilder\<close> without id, owner and
  creation time. The type asks for the first seven fields, but the callers cast what they
  parsed, so every field may be \<^verbatim>\<open>undefined\<close> (\<open>None\<close>), which the driver sends as NULL.
\<close>

record BuilderData =
  bd_email :: "string option"
  bd_fullName :: "string option"
  bd_builderTypes :: "string list option"
  bd_buildingOnBase :: "string option"
  bd_location :: "string option"
  bd_country :: "string option"
  bd_baseAmbassador :: "string option"
  bd_discordUsername :: "string option"
  bd_telegramUsername :: "string option"
  bd_twitterUsername :: "string option"
  bd_baseAppUsername :: "string option"
  bd_githubLink :: "string option"
  bd_relevantLinks :: "string option"
  bd_baseCoreContact :: "string option"
  bd_basename :: "string option"
  bd_walletAddress :: "string option"
  bd_additionalComments :: "string option"

text \<open>
  A row of the table \<^verbatim>\<open>base_builders\<close>. Its only key is \<^verbatim>\<open>id\<close>; \<^verbatim>\<open>user_id\<close> is indexed, not
  unique. The columns up to \<^verbatim>\<open>base_ambassador\<close> are \<^verbatim>\<open>NOT NULL\<close>.
\<close>

record builder_row =
  br_id :: string
  br_user_id :: string
  br_email :: string
  br_full_name :: string
  br_builder_types :: "string list"
  br_building_on_base :: string
  br_location :: string
  br_country :: string
  br_base_ambassador :: string
  br_discord_username :: "string option"
  br_telegram_username :: "string option"
  br_twitter_username :: "string option"
  br_base_app_username :: "string option"
  br_github_link :: "string option"
  br_relevant_links :: "string option"
  br_base_core_contact :: "string option"
  br_basename :: "string option"
  br_wallet_address :: "string option"
  br_additional_comments :: "string option"
  br_created_at :: int

record BaseBuilder =
  bb_id :: string
  bb_userId :: string
  bb_email :: string
  bb_fullName :: string
  bb_builderTypes :: "string list"
  bb_buildingOnBase :: string
  bb_location :: string
  bb_country :: string
  bb_baseAmbassador :: string
  bb_discordUsername :: "string option"
  bb_telegramUsername :: "string option"
  bb_twitterUsername :: "string option"
  bb_baseAppUsername :: "string option"
  bb_githubLink :: "string option"
  bb_relevantLinks :: "string option"
  bb_baseCoreContact :: "string option"
  bb_basename :: "string option"
  bb_walletAddress :: "string option"
  bb_additionalComments :: "string option"
  bb_createdAt :: int

definition mapRowToBaseBuilder :: "builder_row \<Rightarrow> BaseBuilder" where
  "mapRowToBaseBuilder row =
     \<lparr> bb_id = br_id row,
       bb_userId = br_user_id row,
       bb_email = br_email row,
       bb_fullName = br_full_name row,
       bb_builderTypes = br_builder_types row,
       bb_buildingOnBase = br_building_on_base row,
       bb_location = br_location row,
       bb_country = br_country row,
       bb_baseAmbassador = br_base_ambassador row,
       bb_discordUsername = br_discord_username row,
       bb_telegramUsername = br_telegram_username row,
       bb_twitterUsername = br_twitter_username row,
       bb_baseAppUsername = br_base_app_username row,
       bb_githubLink = br_github_link row,
       bb_relevantLinks = br_relevant_links row,
       bb_baseCoreContact = br_base_core_contact row,
       bb_basename = br_basename row,
       bb_walletAddress = br_wallet_address row,
       bb_additionalComments = br_additional_comments row,
       bb_createdAt = br_created_at row \<rparr>"

text \<open>
  \<^verbatim>\<open>BaseBuilderManager.createBaseBuilder\<close>: the identifier is
  \<^verbatim>\<open>bb_${Date.now()}_${Math.random().toString(36).substr(2, 9)}\<close> (\<open>rnd\<close> is the random
  suffix), \<^verbatim>\<open>created_at\<close> is the column's default \<^verbatim>\<open>NOW()\<close>. Nothing is read before the
  \<^verbatim>\<open>INSERT\<close>. \<open>builder_row_error\<close> is the server's verdict on the parameters of the
  \<^verbatim>\<open>INSERT\<close>: the text parameters, the lengths of the columns, the \<^verbatim>\<open>NOT NULL\<close> columns.
  \<open>new_builder_row\<close> is the row the table then holds; it is used for parameters that pass,
  where a \<^verbatim>\<open>NOT NULL\<close> column has a value.
\<close>

definition builder_id :: "int \<Rightarrow> string \<Rightarrow> string" where
  "builder_id now rnd = ''bb_'' @ toString now @ ''_'' @ rnd"

definition builder_row_error :: "string \<Rightarrow> string \<Rightarrow> BuilderData \<Rightarrow> error option" where
  "builder_row_error id' userId builderData =
     first_error
       [nul_error
          ([id', userId]
           @ present (bd_email builderData) @ present (bd_fullName builderData)
           @ concat (present (bd_builderTypes builderData))
           @ present (bd_buildingOnBase builderData) @ present (bd_location builderData)
           @ present (bd_country builderData) @ present (bd_baseAmbassador builderData)
           @ present (bd_discordUsername builderData) @ present (bd_telegramUsername builderData)
           @ present (bd_twitterUsername builderData) @ present (bd_baseAppUsername builderData)
           @ present (bd_githubLink builderData) @ present (bd_relevantLinks builderData)
           @ present (bd_baseCoreContact builderData) @ present (bd_basename builderData)
           @ present (bd_walletAddress builderData) @ present (bd_additionalComments builderData)),
        first_too_long
          [(255, Some id'), (255, Some userId), (255, bd_email builderData),
           (255, bd_fullName builderData), (50, bd_buildingOnBase builderData),
           (255, bd_location builderData), (255, bd_country builderData),
           (10, bd_baseAmbassador builderData), (255, bd_discordUsername builderData),
           (255, bd_telegramUsername builderData), (255, bd_twitterUsername builderData),
           (255, bd_baseAppUsername builderData), (500, bd_githubLink builderData),
           (500, bd_baseCoreContact builderData), (255, bd_basename builderData),
           (255, bd_walletAddress builderData)],
        first_null
          [(''email'', bd_email builderData = None),
           (''full_name'', bd_fullName builderData = None),
           (''builder_types'', bd_builderTypes builderData = None),
           (''building_on_base'', bd_buildingOnBase builderData = None),
           (''location'', bd_location builderData = None),
           (''country'', bd_country builderData = None),
           (''base_ambassador'', bd_baseAmbassador builderData = None)]]"

definition stored_text :: "nat \<Rightarrow> string option \<Rightarrow> string" where
  "stored_text n v = (case v of None \<Rightarrow> [] | Some s \<Rightarrow> take n s)"

definition new_builder_row :: "int \<Rightarrow> string \<Rightarrow> string \<Rightarrow> BuilderData \<Rightarrow> builder_row" where
  "new_builder_row now rnd userId builderData =
     \<lparr> br_id = take 255 (builder_id now rnd),
       br_user_id = take 255 userId,
       br_email = stored_text 255 (bd_email builderData),
       br_full_name = stored_text 255 (bd_fullName builderData),
       br_builder_types = concat (present (bd_builderTypes builderData)),
       br_building_on_base = stored_text 50 (bd_buildingOnBase builderData),
       br_location = stored_text 255 (bd_location builderData),
       br_country = stored_text 255 (bd_country builderData),
       br_base_ambassador = stored_text 10 (bd_baseAmbassador builderData),
       br_discord_username = map_option (take 255) (bd_discordUsername builderData),
       br_telegram_username = map_option (take 255) (bd_telegramUsername builderData),
       br_twitter_username = map_option (take 255) (bd_twitterUsername builderData),
       br_base_app_username = map_option (take 255) (bd_baseAppUsername builderData),
       br_github_link = map_option (take 500) (bd_githubLink builderData),
       br_relevant_links = bd_relevantLinks builderData,
       br_base_core_contact = map_option (take 500) (bd_baseCoreContact builderData),
       br_basename = map_option (take 255) (bd_basename builderData),
       br_wallet_address = map_option (take 255) (bd_walletAddress builderData),
       br_additional_comments = bd_additionalComments builderData,
       br_created_at = now \<rparr>"

definition createBaseBuilder ::
  "builder_row list \<Rightarrow> int \<Rightarrow> string \<Rightarrow> string \<Rightarrow> BuilderData
     \<Rightarrow> error + (builder_row list \<times> BaseBuilder)" where
  "createBaseBuilder tbl now rnd userId builderData =
     (case builder_row_error (builder_id now rnd) userId builderData of
        Some e \<Rightarrow> Inl e
      | None \<Rightarrow>
          (let row = new_builder_row now rnd userId builderData in
           if br_id row \<in> br_id ` set tbl then Inl (UniqueViolation ''base_builders_pkey'')
           else Inr (tbl @ [row], mapRowToBaseBuilder row)))"

text \<open>
  \<^verbatim>\<open>SELECT * FROM base_builders WHERE user_id = $1\<close> and its first row, if any. The query
  has no \<^verbatim>\<open>ORDER BY\<close>; its rows are taken in the order of the table.
\<close>

definition db_getBaseBuilderByUserId :: "builder_row list \<Rightarrow> string \<Rightarrow> BaseBuilder option" where
  "db_getBaseBuilderByUserId tbl userId =
     (case filter (\<lambda>r. br_user_id r = userId) tbl of
        [] \<Rightarrow> None
      | row # rest \<Rightarrow> Some (mapRowToBaseBuilder row))"

section \<open>The hybrid storage manager (src/hybrid-storage.ts)\<close>

datatype dataType = dt_contact | dt_base_builder | dt_image

definition dataType_str :: "dataType \<Rightarrow> string" where
  "dataType_str d = (case d of dt_contact \<Rightarrow> ''contact'' | dt_base_builder \<Rightarrow> ''base_builder'' | dt_image \<Rightarrow> ''image'')"

text \<open>The interface \<^verbatim>\<open>DataHash\<close>: its \<^verbatim>\<open>dataType\<close> is one of the three kinds above.\<close>

record DataHash =
  h_id :: string
  h_dataType :: dataType
  h_originalId :: string
  h_userId :: string
  h_sha256Hash :: string
  h_ipfsHash :: "string option"
  h_createdAt :: int
  h_verified :: bool

text \<open>
  An entity of the ledger as \<^verbatim>\<open>storeHashInGolem\<close> creates it. Its \<^verbatim>\<open>data\<close> (the bytes of
  \<^verbatim>\<open>JSON.stringify(hashData)\<close>) is kept as the record it encodes.
\<close>

record entity =
  e_data :: DataHash
  e_btl :: nat
  e_stringAnnotations :: "(string \<times> string) list"
  e_numericAnnotations :: "(string \<times> int) list"

record pinata_file =
  cid :: string
  file_size :: nat

record IPFSUploadResult =
  ipfsHash :: string
  pinataUrl :: string
  upload_size :: nat

text \<open>
  What a call reads from outside the program: the clock (\<^verbatim>\<open>Date.now()\<close> and
  \<^verbatim>\<open>new Date()\<close>, read at one instant per call), the random suffixes
  (\<^verbatim>\<open>Math.random().toString(36).substr(2, 9)\<close> and \<^verbatim>\<open>substr(2, 44)\<close>), whether
  \<^verbatim>\<open>PINATA_JWT\<close> was set at initialisation (\<^verbatim>\<open>this.pinata\<close> is not null), the variable
  \<^verbatim>\<open>PINATA_GATEWAY\<close>, which timestamps the relational server takes, the Object Store's
  answer to an upload (\<open>Inl\<close> the message of the error it throws), the ledger's answer to the k-th \<^verbatim>\<open>queryEntities\<close> of a call (each
  answer's \<^verbatim>\<open>storageValue\<close> already decoded and parsed), SHA-256 and
  \<^verbatim>\<open>Date.prototype.toISOString\<close>. Every operation starts with \<^verbatim>\<open>initialize()\<close>; the model
  is of a manager whose initialisation has succeeded, so \<^verbatim>\<open>golemClient\<close> is set.
\<close>

record runtime =
  now :: int
  random9 :: string
  random44 :: string
  pinata :: bool
  PINATA_GATEWAY :: "string option"
  timestamp_accepted :: "int \<Rightarrow> bool"
  pinata_upload :: "buffer \<Rightarrow> string \<Rightarrow> string + pinata_file"
  queryEntities :: "string \<Rightarrow> nat \<Rightarrow> DataHash list"
  sha256 :: "string \<Rightarrow> string"
  toISOString :: "int \<Rightarrow> string"

text \<open>The three stores: the two tables and the entities of the ledger, oldest first.\<close>

record store =
  contacts :: "contact_row list"
  base_builders :: "builder_row list"
  golem :: "entity list"

definition js_nullable :: "string option \<Rightarrow> jsval" where
  "js_nullable v = (case v of None \<Rightarrow> JNull | Some s \<Rightarrow> JStr s)"

text \<open>
  The objects handed to \<^verbatim>\<open>generateHash\<close>: the object literals of \<^verbatim>\<open>mapRowToContact\<close> and
  \<^verbatim>\<open>mapRowToBaseBuilder\<close>, keys in the order they are written there.
\<close>

definition contact_js :: "Contact \<Rightarrow> jsval" where
  "contact_js c = JObj
     [(''id'', JStr (c_id c)),
      (''userId'', JStr (c_userId c)),
      (''name'', JStr (c_name c)),
      (''position'', js_nullable (c_position c)),
      (''company'', js_nullable (c_company c)),
      (''email'', js_nullable (c_email c)),
      (''phone'', js_nullable (c_phone c)),
      (''linkedin'', js_nullable (c_linkedin c)),
      (''github'', js_nullable (c_github c)),
      (''telegram'', js_nullable (c_telegram c)),
      (''lens'', js_nullable (c_lens c)),
      (''farcaster'', js_nullable (c_farcaster c)),
      (''ens'', js_nullable (c_ens c)),
      (''location'', js_nullable (c_location c)),
      (''goal'', js_nullable (c_goal c)),
      (''notes'', js_nullable (c_notes c)),
      (''tags'', JArr (map JStr (c_tags c))),
      (''priority'', JStr (c_priority c)),
      (''createdAt'', JDate (c_createdAt c)),
      (''source'', js_nullable (c_source c)),
      (''photoPath'', js_nullable (c_photoPath c)),
      (''photoFileId'', js_nullable (c_photoFileId c)),
      (''photoTakenAt'', (case c_photoTakenAt c of None \<Rightarrow> JUndefined | Some t \<Rightarrow> JDate t)),
      (''hasFacialData'', JBool (c_hasFacialData c))]"

definition builder_js :: "BaseBuilder \<Rightarrow> jsval" where
  "builder_js b = JObj
     [(''id'', JStr (bb_id b)),
      (''userId'', JStr (bb_userId b)),
      (''email'', JStr (bb_email b)),
      (''fullName'', JStr (bb_fullName b)),
      (''builderTypes'', JArr (map JStr (bb_builderTypes b))),
      (''buildingOnBase'', JStr (bb_buildingOnBase b)),
      (''location'', JStr (bb_location b)),
      (''country'', JStr (bb_country b)),
      (''baseAmbassador'', JStr (bb_baseAmbassador b)),
      (''discordUsername'', js_nullable (bb_discordUsername b)),
      (''telegramUsername'', js_nullable (bb_telegramUsername b)),
      (''twitterUsername'', js_nullable (bb_twitterUsername b)),
      (''baseAppUsername'', js_nullable (bb_baseAppUsername b)),
      (''githubLink'', js_nullable (bb_githubLink b)),
      (''relevantLinks'', js_nullable (bb_relevantLinks b)),
      (''baseCoreContact'', js_nullable (bb_baseCoreContact b)),
      (''basename'', js_nullable (bb_basename b)),
      (''walletAddress'', js_nullable (bb_walletAddress b)),
      (''additionalComments'', js_nullable (bb_additionalComments b)),
      (''createdAt'', JDate (bb_createdAt b))]"

definition hash_of :: "runtime \<Rightarrow> jsval \<Rightarrow> string" where
  "hash_of rt data = generateHash (sha256 rt) (toISOString rt) data"

text \<open>
  \<^verbatim>\<open>storeHashInGolem\<close>: one entity is created, with the annotations the queries select by;
  the \<^verbatim>\<open>ipfsHash\<close> annotation only for a non-empty \<^verbatim>\<open>ipfsHash\<close>.
\<close>

definition hash_entity :: "runtime \<Rightarrow> DataHash \<Rightarrow> entity" where
  "hash_entity rt hashData =
     \<lparr> e_data = hashData,
       e_btl = 8760 * 365,
       e_stringAnnotations =
         [(''type'', ''data_hash''),
          (''dataType'', dataType_str (h_dataType hashData)),
          (''userId'', h_userId hashData),
          (''originalId'', h_originalId hashData),
          (''hashId'', h_id hashData)]
         @ (case h_ipfsHash hashData of
              None \<Rightarrow> []
            | Some h \<Rightarrow> if h = [] then [] else [(''ipfsHash'', h)]),
       e_numericAnnotations =
         [(''timestamp'', now rt), (''verified'', if h_verified hashData then 1 else 0)] \<rparr>"

definition storeHashInGolem :: "store \<Rightarrow> runtime \<Rightarrow> DataHash \<Rightarrow> store" where
  "storeHashInGolem st rt hashData = st\<lparr> golem := golem st @ [hash_entity rt hashData] \<rparr>"

text \<open>
  \<^verbatim>\<open>uploadImageToIPFS\<close>. When the upload throws and the message includes
  \<^verbatim>\<open>Authentication failed\<close>, \<^verbatim>\<open>Not Authorized\<close> or \<^verbatim>\<open>File size must be greater than 0\<close>, the
  catch block builds a mock result with the content identifier \<^verbatim>\<open>Qm\<close> and a random suffix,
  and the function goes on with it; any other error is thrown on.
\<close>

definition gateway_url :: "runtime \<Rightarrow> string \<Rightarrow> string" where
  "gateway_url rt c = ''https://'' @ or_str (PINATA_GATEWAY rt) ''gateway.pinata.cloud'' @ ''/ipfs/'' @ c"

definition mock_on_error :: "string \<Rightarrow> bool" where
  "mock_on_error message =
     (str_includes message ''Authentication failed'' \<or>
      str_includes message ''Not Authorized'' \<or>
      str_includes message ''File size must be greater than 0'')"

definition uploadImageToIPFS :: "runtime \<Rightarrow> buffer \<Rightarrow> string \<Rightarrow> error + IPFSUploadResult" where
  "uploadImageToIPFS rt imageBuffer filename =
     (if \<not> pinata rt then Inl PinataNotInitialized
      else
        (case (case pinata_upload rt imageBuffer filename of
                 Inr result \<Rightarrow> Inr result
               | Inl message \<Rightarrow>
                   if mock_on_error message
                   then Inr \<lparr> cid = ''Qm'' @ random44 rt, file_size = length imageBuffer \<rparr>
                   else Inl (PinataError message)) of
           Inl e \<Rightarrow> Inl e
         | Inr result \<Rightarrow>
             Inr \<lparr> ipfsHash = cid result,
                   pinataUrl = gateway_url rt (cid result),
                   upload_size = (if file_size result = 0 then length imageBuffer else file_size result) \<rparr>))"

text \<open>The image record both photo paths anchor: a digest of the content identifier.\<close>

definition image_hash_data :: "runtime \<Rightarrow> string \<Rightarrow> string \<Rightarrow> IPFSUploadResult \<Rightarrow> DataHash" where
  "image_hash_data rt userId contactId ipfsResult =
     \<lparr> h_id = ''img_'' @ toString (now rt) @ ''_'' @ random9 rt,
       h_dataType = dt_image,
       h_originalId = contactId,
       h_userId = userId,
       h_sha256Hash = hash_of rt (JStr (ipfsHash ipfsResult)),
       h_ipfsHash = Some (ipfsHash ipfsResult),
       h_createdAt = now rt,
       h_verified = True \<rparr>"

definition ipfs_photoData :: "runtime \<Rightarrow> IPFSUploadResult \<Rightarrow> photoData" where
  "ipfs_photoData rt ipfsResult =
     \<lparr> photoPath = Some (pinataUrl ipfsResult),
       photoFileId = Some (ipfsHash ipfsResult),
       photoTakenAt = Some (now rt),
       hasFacialData = Some False \<rparr>"

definition photo_filename :: "runtime \<Rightarrow> string \<Rightarrow> string" where
  "photo_filename rt contactId = ''contact_'' @ contactId @ ''_'' @ toString (now rt) @ ''.jpg''"

text \<open>
  \<^verbatim>\<open>HybridStorageManager.addContact\<close>. The result is the store after the call together with
  the contact or the error thrown: a failure after the relational insert (of the upload,
  or of the update that attaches the photo) leaves the inserted row in place.
\<close>

definition addContact ::
  "store \<Rightarrow> runtime \<Rightarrow> string \<Rightarrow> ContactData \<Rightarrow> buffer option \<Rightarrow> (error + Contact) \<times> store" where
  "addContact st rt userId contactData imageBuffer =
     (case db_addContact (contacts st) (timestamp_accepted rt) (now rt) userId contactData of
        Inl e \<Rightarrow> (Inl e, st)
      | Inr (tbl, contact) \<Rightarrow>
          (let st1 = st\<lparr> contacts := tbl \<rparr>;
               anchor = (\<lambda>st' ipfs.
                 (Inr contact,
                  storeHashInGolem st' rt
                    \<lparr> h_id = ''contact_'' @ toString (now rt) @ ''_'' @ random9 rt,
                      h_dataType = dt_contact,
                      h_originalId = c_id contact,
                      h_userId = userId,
                      h_sha256Hash = hash_of rt (contact_js contact),
                      h_ipfsHash = ipfs,
                      h_createdAt = now rt,
                      h_verified = True \<rparr>))
           in case imageBuffer of
                None \<Rightarrow> anchor st1 None
              | Some buf \<Rightarrow>
                  (case uploadImageToIPFS rt buf (photo_filename rt (c_id contact)) of
                     Inl e \<Rightarrow> (Inl e, st1)
                   | Inr ipfsResult \<Rightarrow>
                       (case db_addPhotoToContact (contacts st1) (timestamp_accepted rt) (now rt)
                               userId (c_id contact) (ipfs_photoData rt ipfsResult) of
                          Inl e \<Rightarrow> (Inl e, st1)
                        | Inr (success, tbl') \<Rightarrow>
                            (let st2 = st1\<lparr> contacts := tbl' \<rparr>;
                                 st3 = storeHashInGolem st2 rt
                                         (image_hash_data rt userId (c_id contact) ipfsResult)
                             in anchor st3 (Some (ipfsHash ipfsResult)))))))"

text \<open>
  \<^verbatim>\<open>HybridStorageManager.addBaseBuilder\<close>: the insert of \<^verbatim>\<open>createBaseBuilder\<close>, then the
  anchoring of the new application's digest.
\<close>

definition addBaseBuilder ::
  "store \<Rightarrow> runtime \<Rightarrow> string \<Rightarrow> BuilderData \<Rightarrow> (error + BaseBuilder) \<times> store" where
  "addBaseBuilder st rt userId builderData =
     (case createBaseBuilder (base_builders st) (now rt) (random9 rt) userId builderData of
        Inl e \<Rightarrow> (Inl e, st)
      | Inr (tbl, builder) \<Rightarrow>
          (Inr builder,
           storeHashInGolem (st\<lparr> base_builders := tbl \<rparr>) rt
             \<lparr> h_id = ''builder_'' @ toString (now rt) @ ''_'' @ random9 rt,
               h_dataType = dt_base_builder,
               h_originalId = bb_id builder,
               h_userId = userId,
               h_sha256Hash = hash_of rt (builder_js builder),
               h_ipfsHash = None,
               h_createdAt = now rt,
               h_verified = True \<rparr>))"

definition getBaseBuilderByUserId :: "store \<Rightarrow> string \<Rightarrow> BaseBuilder option" where
  "getBaseBuilderByUserId st userId = db_getBaseBuilderByUserId (base_builders st) userId"

definition getUserContacts :: "store \<Rightarrow> string \<Rightarrow> Contact list" where
  "getUserContacts st userId = db_getUserContacts (contacts st) userId"

definition searchContacts :: "store \<Rightarrow> string \<Rightarrow> string \<Rightarrow> Contact list" where
  "searchContacts st userId query = db_searchContacts (contacts st) userId query"

subsection \<open>Verification and its retry loop\<close>

definition maxAttempts :: nat where
  "maxAttempts = 3"

text \<open>
  The \<^verbatim>\<open>while\<close> loop of \<^verbatim>\<open>verifyDataIntegrity\<close>. \<open>q k\<close> is the ledger's answer to the k-th
  query of the call. The state of the loop is \<^verbatim>\<open>results\<close> and \<^verbatim>\<open>attempts\<close>; \<open>waited\<close> adds up
  the milliseconds of the \<^verbatim>\<open>setTimeout\<close> pauses. The function returns the three when the
  loop is left.
\<close>

function retry_loop ::
  "(nat \<Rightarrow> DataHash list) \<Rightarrow> DataHash list \<Rightarrow> nat \<Rightarrow> nat \<Rightarrow> DataHash list \<times> nat \<times> nat" where
  "retry_loop q results attempts waited =
     (if results = [] \<and> attempts < maxAttempts then
        (let attempts' = attempts + 1;
             results' = q attempts';
             waited' = (if results' = [] \<and> attempts' < maxAttempts then waited + 2000 else waited)
         in retry_loop q results' attempts' waited')
      else (results, attempts, waited))"
  by pat_completeness auto
termination
  by (relation "measure (\<lambda>(q, results, attempts, waited). maxAttempts - attempts)") auto

declare retry_loop.simps [simp del]

record verification =
  isValid :: bool
  storedHash :: string
  currentHash :: string

definition ledger_query :: "dataType \<Rightarrow> string \<Rightarrow> string \<Rightarrow> string" where
  "ledger_query dt userId originalId =
     ''type = \"data_hash\" && dataType = \"'' @ dataType_str dt @ ''\" && userId = \"'' @ userId
       @ ''\" && originalId = \"'' @ originalId @ ''\"''"

text \<open>
  Step 1 of \<^verbatim>\<open>verifyDataIntegrity\<close>: the current record, as the object to be hashed. A
  contact is found among the owner's contacts by its id; an application is the owner's
  row, whatever \<open>originalId\<close> is.
\<close>

definition current_data :: "store \<Rightarrow> string \<Rightarrow> dataType \<Rightarrow> string \<Rightarrow> jsval option" where
  "current_data st userId dt originalId =
     (if dt = dt_contact
      then map_option contact_js (find (\<lambda>c. c_id c = originalId) (getUserContacts st userId))
      else map_option builder_js (db_getBaseBuilderByUserId (base_builders st) userId))"

definition verifyDataIntegrity ::
  "store \<Rightarrow> runtime \<Rightarrow> string \<Rightarrow> dataType \<Rightarrow> string \<Rightarrow> error + verification" where
  "verifyDataIntegrity st rt userId dt originalId =
     (case current_data st userId dt originalId of
        None \<Rightarrow> Inl DataNotFound
      | Some currentData \<Rightarrow>
          (let currentHash' = hash_of rt currentData;
               query = ledger_query dt userId originalId
           in case fst (retry_loop (queryEntities rt query) [] 0 0) of
                [] \<Rightarrow> Inl (HashNotFound maxAttempts)
              | storedHashData # rest \<Rightarrow>
                  Inr \<lparr> isValid = (currentHash' = h_sha256Hash storedHashData),
                        storedHash = h_sha256Hash storedHashData,
                        currentHash = currentHash' \<rparr>))"

subsection \<open>Deleting a contact, attaching a photo\<close>

text \<open>
  \<^verbatim>\<open>HybridStorageManager.deleteContact\<close>: the marker it anchors after a successful delete
  is a \<^verbatim>\<open>DataHash\<close> of kind \<^verbatim>\<open>'contact'\<close> whose digest is that of
  \<^verbatim>\<open>{ deleted: true, contactId, timestamp: Date.now() }\<close>.
\<close>

definition delete_marker :: "runtime \<Rightarrow> string \<Rightarrow> string \<Rightarrow> DataHash" where
  "delete_marker rt userId contactId =
     \<lparr> h_id = ''delete_'' @ toString (now rt) @ ''_'' @ random9 rt,
       h_dataType = dt_contact,
       h_originalId = contactId,
       h_userId = userId,
       h_sha256Hash = hash_of rt (JObj [(''deleted'', JBool True), (''contactId'', JStr contactId),
                                        (''timestamp'', JNum (now rt))]),
       h_ipfsHash = None,
       h_createdAt = now rt,
       h_verified = True \<rparr>"

definition deleteContact :: "store \<Rightarrow> runtime \<Rightarrow> string \<Rightarrow> string \<Rightarrow> bool \<times> store" where
  "deleteContact st rt userId contactId =
     (let (deleted, tbl) = db_deleteContact (contacts st) userId contactId;
          st1 = st\<lparr> contacts := tbl \<rparr>
      in if deleted then (deleted, storeHashInGolem st1 rt (delete_marker rt userId contactId))
         else (deleted, st1))"

text \<open>
  \<^verbatim>\<open>HybridStorageManager.addPhotoToContact\<close>: upload, then the relational update, then
  the anchoring of the image record if a row was updated. An error of the update is thrown
  on.
\<close>

definition addPhotoToContact ::
  "store \<Rightarrow> runtime \<Rightarrow> string \<Rightarrow> string \<Rightarrow> buffer \<Rightarrow> (error + bool) \<times> store" where
  "addPhotoToContact st rt userId contactId imageBuffer =
     (case uploadImageToIPFS rt imageBuffer (photo_filename rt contactId) of
        Inl e \<Rightarrow> (Inl e, st)
      | Inr ipfsResult \<Rightarrow>
          (case db_addPhotoToContact (contacts st) (timestamp_accepted rt) (now rt) userId contactId
                  (ipfs_photoData rt ipfsResult) of
             Inl e \<Rightarrow> (Inl e, st)
           | Inr (success, tbl) \<Rightarrow>
               (let st1 = st\<lparr> contacts := tbl \<rparr>
                in if success
                   then (Inr success,
                         storeHashInGolem st1 rt (image_hash_data rt userId contactId ipfsResult))
                   else (Inr success, st1))))"

section \<open>Example data\<close>

text \<open>
  Concrete inputs for the closed theorems below. In \<open>demo_runtime\<close> the relational
  server takes every timestamp, the Object Store accepts every upload, the ledger answers every query with no entity, and the identity
  and the decimal clock stand in for SHA-256 and \<^verbatim>\<open>toISOString\<close>, so that a digest shows
  the string that is hashed.
\<close>

definition no_fields :: ContactData where
  "no_fields =
     \<lparr> d_name = None, d_position = None, d_company = None, d_email = None, d_phone = None,
       d_linkedin = None, d_github = None, d_telegram = None, d_lens = None, d_farcaster = None,
       d_ens = None, d_location = None, d_goal = None, d_notes = None, d_tags = None,
       d_priority = None, d_source = None, d_photoPath = None, d_photoFileId = None,
       d_photoTakenAt = None, d_hasFacialData = None \<rparr>"

definition sarah :: ContactData where
  "sarah = no_fields\<lparr> d_name := Some ''Sarah Chen'', d_company := Some ''Ethereum Foundation'',
                       d_priority := Some ''high'' \<rparr>"

definition demo_runtime :: runtime where
  "demo_runtime =
     \<lparr> now = 1700000000000,
       random9 = ''k3j9x0q2z'',
       random44 = ''mock'',
       pinata = True,
       PINATA_GATEWAY = None,
       timestamp_accepted = (\<lambda>t. True),
       pinata_upload = (\<lambda>buf name. Inr \<lparr> cid = ''QmPhoto'', file_size = length buf \<rparr>),
       queryEntities = (\<lambda>query k. []),
       sha256 = (\<lambda>s. s),
       toISOString = toString \<rparr>"

definition empty_store :: store where
  "empty_store = \<lparr> contacts = [], base_builders = [], golem = [] \<rparr>"

text \<open>The store after \<^verbatim>\<open>addContact("u1", {name: "Sarah Chen", ...})\<close> on the empty store.\<close>

definition sarah_store :: store where
  "sarah_store = snd (addContact empty_store demo_runtime ''u1'' sarah None)"

text \<open>
  A table in which two owners hold a contact under one and the same id. (The primary key
  keeps \<^verbatim>\<open>addContact\<close> from building it; the isolation theorem does not rest on that.)
\<close>

definition two_owner_store :: store where
  "two_owner_store =
     \<lparr> contacts = [new_contact_row 1700000000000 ''u1'' sarah,
                   new_contact_row 1700000000000 ''u2'' no_fields],
       base_builders = [],
       golem = [] \<rparr>"

definition demo_builder :: BuilderData where
  "demo_builder =
     \<lparr> bd_email = Some ''alice@ethereum.org'', bd_fullName = Some ''Alice Johnson'',
       bd_builderTypes = Some [''Developer'', ''Advocate''], bd_buildingOnBase = Some ''Yes'',
       bd_location = Some ''North America'', bd_country = Some ''USA'',
       bd_baseAmbassador = Some ''Yes'',
       bd_discordUsername = None, bd_telegramUsername = None, bd_twitterUsername = None,
       bd_baseAppUsername = None, bd_githubLink = None, bd_relevantLinks = None,
       bd_baseCoreContact = None, bd_basename = None, bd_walletAddress = None,
       bd_additionalComments = None \<rparr>"

text \<open>The store after \<^verbatim>\<open>addBaseBuilder("u2", {...})\<close> on the empty store.\<close>

definition builder_store :: store where
  "builder_store = snd (addBaseBuilder empty_store demo_runtime ''u2'' demo_builder)"

text \<open>A runtime whose Object Store rejects every upload with the given message.\<close>

definition rejecting_runtime :: "string \<Rightarrow> runtime" where
  "rejecting_runtime message = demo_runtime\<lparr> pinata_upload := (\<lambda>buf name. Inl message) \<rparr>"

text \<open>The same runtime one millisecond later.\<close>

definition later_runtime :: runtime where
  "later_runtime = demo_runtime\<lparr> now := 1700000000001 \<rparr>"

text \<open>
  A runtime whose ledger has indexed the application of \<open>builder_store\<close>: it answers the
  query for that application's id with the anchored record, and every other query with
  no entity.
\<close>

definition anchored_runtime :: runtime where
  "anchored_runtime = demo_runtime\<lparr> queryEntities :=
     (\<lambda>query k. if query = ledger_query dt_base_builder ''u2'' ''bb_1700000000000_k3j9x0q2z''
                 then map e_data (golem builder_store) else []) \<rparr>"

section \<open>Facts about the example data\<close>

lemmas server_check_defs =
  nul_error_def has_nul_def present_def timestamp_error_def first_too_long_def
  too_long_column_def too_long_def first_null_def

lemma sarah_row_accepted:
  "contact_row_error (\<lambda>t. True) (new_contact_row 1700000000000 ''u1'' sarah) = None"
  by (simp add: contact_row_error_def server_check_defs new_contact_row_def sarah_def no_fields_def
        or_str_def toString_def digit_char_def)

lemma sarah_row_stored:
  "stored_contact_row (new_contact_row 1700000000000 ''u1'' sarah) = new_contact_row 1700000000000 ''u1'' sarah"
  by (simp add: stored_contact_row_def new_contact_row_def sarah_def no_fields_def
        or_str_def toString_def digit_char_def)

lemma sarah_contacts: "contacts sarah_store = [new_contact_row 1700000000000 ''u1'' sarah]"
  by (simp add: sarah_store_def empty_store_def demo_runtime_def addContact_def db_addContact_def
        storeHashInGolem_def Let_def sarah_row_accepted sarah_row_stored)

lemma sarah_row_id: "r_id (new_contact_row 1700000000000 userId d) = ''1700000000000''"
  by (simp add: new_contact_row_def toString_def digit_char_def)

lemma sarah_current: "current_data sarah_store ''u1'' dt_contact ''1700000000000'' \<noteq> None"
  by (simp add: current_data_def getUserContacts_def db_getUserContacts_def
        order_by_created_at_desc_def sarah_contacts sarah_row_id mapRowToContact_def new_contact_row_def toString_def digit_char_def)

lemma two_owner_rows:
  "contacts two_owner_store = [new_contact_row 1700000000000 ''u1'' sarah, new_contact_row 1700000000000 ''u2'' no_fields]"
  by (simp add: two_owner_store_def)

lemma new_row_user [simp]: "r_user_id (new_contact_row t u d) = u"
  by (simp add: new_contact_row_def)

lemma new_row_id [simp]: "r_id (new_contact_row t u d) = toString t"
  by (simp add: new_contact_row_def)

lemma new_row_name [simp]: "r_name (new_contact_row t u d) = or_str (d_name d) ''Unknown''"
  by (simp add: new_contact_row_def)

lemma search_ex: "search_matches (new_contact_row 1700000000000 ''u2'' no_fields) ''%unknown%''"
  by (simp add: search_matches_def lower_like_def LOWER_def lower_char_def or_str_def no_fields_def)

section \<open>The server's checks\<close>


lemma first_error_Some_hd: "first_error (Some e # xs) = Some e"
  by simp






section \<open>Inserting a contact\<close>

lemma stored_row_fields [simp]:
  "r_id (stored_contact_row c) = take 255 (r_id c)"
  "r_user_id (stored_contact_row c) = take 255 (r_user_id c)"
  "r_name (stored_contact_row c) = take 255 (r_name c)"
  "r_photo_path (stored_contact_row c) = map_option (take 500) (r_photo_path c)"
  "r_photo_file_id (stored_contact_row c) = map_option (take 500) (r_photo_file_id c)"
  "r_photo_taken_at (stored_contact_row c) = r_photo_taken_at c"
  by (simp_all add: stored_contact_row_def)



lemma accepted_name_Unknown:
  assumes "contact_row_error acc (new_contact_row t u d) = None"
    and "or_str (d_name d) ''Unknown'' = ''Unknown''"
  shows "r_name (stored_contact_row (new_contact_row t u d)) = ''Unknown''"
  using assms(2) by (simp only: stored_row_fields new_row_name) simp









lemma mapRow_name [simp]: "c_name (mapRowToContact r) = r_name r"
  by (simp add: mapRowToContact_def)











section \<open>Contact identifiers\<close>



section \<open>A contact without a name\<close>





section \<open>The retry loop of verifyDataIntegrity\<close>

lemma retry_loop_found: "results \<noteq> [] \<Longrightarrow> retry_loop q results attempts waited = (results, attempts, waited)"
  by (subst retry_loop.simps) simp

lemma retry_loop_step:
  "retry_loop q [] attempts waited =
     (if attempts < maxAttempts
      then retry_loop q (q (attempts + 1)) (attempts + 1)
             (if q (attempts + 1) = [] \<and> attempts + 1 < maxAttempts then waited + 2000 else waited)
      else ([], attempts, waited))"
  by (subst retry_loop.simps) (simp add: Let_def split: if_splits)

lemma retry_loop_unfold:
  "retry_loop q [] 0 0 =
     (if q 1 \<noteq> [] then (q 1, 1, 0)
      else if q 2 \<noteq> [] then (q 2, 2, 2000)
      else (q 3, 3, 4000))"
proof -
  have three: "retry_loop q (q 3) 3 w = (q 3, 3, w)" for w
    by (subst retry_loop.simps) (simp add: maxAttempts_def)
  have two: "retry_loop q [] 2 w = (q 3, 3, w)" for w
    using three by (subst retry_loop_step) (simp add: maxAttempts_def numeral_3_eq_3)
  have one: "retry_loop q [] 1 w = (if q 2 \<noteq> [] then (q 2, 2, w) else (q 3, 3, w + 2000))" for w
    using two retry_loop_found[of "q 2" q 2 w]
    by (subst retry_loop_step) (simp add: maxAttempts_def numeral_2_eq_2)
  show ?thesis
    using one retry_loop_found[of "q 1" q 1 0]
    by (subst retry_loop_step) (simp add: maxAttempts_def)
qed

text \<open>
  Claim C8. The ledger-query loop of \<^verbatim>\<open>verifyDataIntegrity\<close> always ends: \<open>retry_loop\<close> is a
  total function (its termination is proved with the measure \<open>maxAttempts - attempts\<close>),
  and from the initial state it makes at least one and at most \<open>maxAttempts = 3\<close> queries,
  pauses 2000 ms after each query but the last one made (so 4000 ms at most), stops at the
  first answer that is not empty, and after three empty answers leaves the loop with no
  result, upon which \<^verbatim>\<open>verifyDataIntegrity\<close> fails with
  \<^verbatim>\<open>Hash not found in GolemDB after 3 attempts\<close>.
\<close>

theorem retry_loop_bounded:
  "(case retry_loop q [] 0 0 of (results, attempts, waited) \<Rightarrow>
      1 \<le> attempts \<and> attempts \<le> maxAttempts \<and> maxAttempts = 3 \<and>
      waited = 2000 * (attempts - 1) \<and>
      results = q attempts \<and>
      (\<forall>k. 1 \<le> k \<and> k < attempts \<longrightarrow> q k = []) \<and>
      (results = [] \<longrightarrow> attempts = maxAttempts))
   \<and> ((\<forall>k. q k = []) \<longrightarrow> retry_loop q [] 0 0 = ([], 3, 4000))
   \<and> (current_data st userId dt originalId \<noteq> None \<longrightarrow>
        (\<forall>k. queryEntities rt (ledger_query dt userId originalId) k = []) \<longrightarrow>
        verifyDataIntegrity st rt userId dt originalId = Inl (HashNotFound 3))"
proof -
  have lt2: "k = 1" if "1 \<le> k" "k < 2" for k :: nat
    using that by simp
  have a: "(case retry_loop q [] 0 0 of (results, attempts, waited) \<Rightarrow>
      1 \<le> attempts \<and> attempts \<le> maxAttempts \<and> maxAttempts = 3 \<and>
      waited = 2000 * (attempts - 1) \<and>
      results = q attempts \<and>
      (\<forall>k. 1 \<le> k \<and> k < attempts \<longrightarrow> q k = []) \<and>
      (results = [] \<longrightarrow> attempts = maxAttempts))"
  proof (cases "q 1 = []")
    case False
    then show ?thesis by (simp add: retry_loop_unfold maxAttempts_def)
  next
    case q1: True
    show ?thesis
    proof (cases "q 2 = []")
      case False
      have "q k = []" if "1 \<le> k" "k < 2" for k
        using lt2[OF that] q1 by simp
      with False q1 show ?thesis by (simp add: retry_loop_unfold maxAttempts_def)
    next
      case q2: True
      have "q k = []" if "1 \<le> k" "k < 3" for k
      proof -
        from that have "k = 1 \<or> k = 2" by arith
        then show ?thesis using q1 q2 by auto
      qed
      then show ?thesis using q1 q2 by (simp add: retry_loop_unfold maxAttempts_def)
    qed
  qed
  have b: "(\<forall>k. q k = []) \<longrightarrow> retry_loop q [] 0 0 = ([], 3, 4000)"
    by (simp add: retry_loop_unfold)
  have c: "current_data st userId dt originalId \<noteq> None \<longrightarrow>
        (\<forall>k. queryEntities rt (ledger_query dt userId originalId) k = []) \<longrightarrow>
        verifyDataIntegrity st rt userId dt originalId = Inl (HashNotFound 3)"
    by (auto simp add: verifyDataIntegrity_def retry_loop_unfold maxAttempts_def Let_def)
  from a b c show ?thesis by blast
qed

theorem retry_loop_bounded_witness:
  "retry_loop (\<lambda>k. []) [] 0 0 = ([], 3, 4000) \<and>
   verifyDataIntegrity sarah_store demo_runtime ''u1'' dt_contact ''1700000000000'' = Inl (HashNotFound 3)"
proof -
  have q: "\<forall>k. queryEntities demo_runtime (ledger_query dt_contact ''u1'' ''1700000000000'') k = []"
    by (simp add: demo_runtime_def)
  show ?thesis
    using retry_loop_bounded[of "\<lambda>k. []" sarah_store "''u1''" dt_contact "''1700000000000''" demo_runtime]
      sarah_current q
    by blast
qed

section \<open>Canonical digests\<close>

lemma map_of_map_values:
  "map_of (map (\<lambda>(k, v). (k, f v)) xs) k = map_option f (map_of xs k)"
  by (induction xs) auto

lemma serialize_obj_map_of:
  "map_of o1 = map_of o2 \<Longrightarrow> serialize t K (JObj o1) = serialize t K (JObj o2)"
  by (simp add: map_of_map_values)

lemma sorted_keys_eq:
  assumes "distinct (map fst o1)" "distinct (map fst o2)" "set o1 = set o2"
  shows "sort (map fst o1) = sort (map fst o2)"
proof (rule sorted_distinct_set_unique)
  show "set (sort (map fst o1)) = set (sort (map fst o2))" using assms(3) by simp
qed (use assms in simp_all)

text \<open>
  Claim C3. Canonicalisation: two record objects with the same key/value pairs (each key
  once, as in every JavaScript object) have the same digest under \<^verbatim>\<open>generateHash\<close>,
  whatever the order in which their keys were inserted.
\<close>

theorem generateHash_key_order:
  assumes "distinct (map fst o1)" and "distinct (map fst o2)" and "set o1 = set o2"
  shows "generateHash h t (JObj o1) = generateHash h t (JObj o2)"
proof -
  have "map_of o1 = map_of o2"
    using assms by (simp add: map_of_inject_set)
  then have "serialize t K (JObj o1) = serialize t K (JObj o2)" for K
    by (rule serialize_obj_map_of)
  moreover have "object_keys (JObj o1) = map fst o1" "object_keys (JObj o2) = map fst o2"
    by simp_all
  ultimately show ?thesis
    unfolding generateHash_def stringify_sorted_def
    using sorted_keys_eq[OF assms] by (simp del: serialize.simps)
qed

theorem generateHash_key_order_witness:
  "generateHash (\<lambda>s. s) toString
     (JObj [(''name'', JStr ''Sarah Chen''), (''company'', JStr ''Ethereum Foundation''), (''priority'', JStr ''high'')])
   = generateHash (\<lambda>s. s) toString
     (JObj [(''priority'', JStr ''high''), (''company'', JStr ''Ethereum Foundation''), (''name'', JStr ''Sarah Chen'')])
   \<and> generateHash (\<lambda>s. s) toString
     (JObj [(''priority'', JStr ''high''), (''company'', JStr ''Ethereum Foundation''), (''name'', JStr ''Sarah Chen'')])
   = ''{\"company\":\"Ethereum Foundation\",\"name\":\"Sarah Chen\",\"priority\":\"high\"}''"
proof -
  have "generateHash (\<lambda>s. s) toString
     (JObj [(''name'', JStr ''Sarah Chen''), (''company'', JStr ''Ethereum Foundation''), (''priority'', JStr ''high'')])
   = generateHash (\<lambda>s. s) toString
     (JObj [(''priority'', JStr ''high''), (''company'', JStr ''Ethereum Foundation''), (''name'', JStr ''Sarah Chen'')])"
    by (rule generateHash_key_order) auto
  moreover have "generateHash (\<lambda>s. s) toString
     (JObj [(''priority'', JStr ''high''), (''company'', JStr ''Ethereum Foundation''), (''name'', JStr ''Sarah Chen'')])
   = ''{\"company\":\"Ethereum Foundation\",\"name\":\"Sarah Chen\",\"priority\":\"high\"}''"
    by (simp add: generateHash_def stringify_sorted_def property_list_def quote_def quote_char_def
          List.map_filter_def)
  ultimately show ?thesis by (simp only:)
qed

section \<open>Owner isolation\<close>

lemma set_order_by [simp]: "set (order_by_created_at_desc rows) = set rows"
  by (simp add: order_by_created_at_desc_def)

lemma mapRow_userId [simp]: "c_userId (mapRowToContact r) = r_user_id r"
  by (simp add: mapRowToContact_def)

lemma mapRow_id [simp]: "c_id (mapRowToContact r) = r_id r"
  by (simp add: mapRowToContact_def)

lemma getUserContacts_rows:
  "set (getUserContacts st userId) = mapRowToContact ` {r \<in> set (contacts st). r_user_id r = userId}"
  by (simp add: getUserContacts_def db_getUserContacts_def)

lemma searchContacts_rows:
  "set (searchContacts st userId query) \<subseteq> mapRowToContact ` {r \<in> set (contacts st). r_user_id r = userId}"
  by (auto simp add: searchContacts_def db_searchContacts_def Let_def)

lemma current_data_contact:
  assumes "current_data st userId dt_contact contactId = Some data"
  shows "\<exists>r \<in> set (contacts st). r_user_id r = userId \<and> r_id r = contactId \<and> data = contact_js (mapRowToContact r)"
proof -
  from assms obtain c where f: "find (\<lambda>c. c_id c = contactId) (getUserContacts st userId) = Some c"
    and d: "data = contact_js c"
    by (auto simp add: current_data_def)
  from f have "c \<in> set (getUserContacts st userId)" "c_id c = contactId"
    by (auto simp add: find_Some_iff)
  then show ?thesis using d by (auto simp add: getUserContacts_rows)
qed

lemma deleteContact_contacts:
  "contacts (snd (deleteContact st rt userId contactId)) =
     filter (\<lambda>r. \<not> (r_user_id r = userId \<and> r_id r = contactId)) (contacts st)"
  by (simp add: deleteContact_def db_deleteContact_def storeHashInGolem_def Let_def)

lemma deleteContact_fst:
  "fst (deleteContact st rt userId contactId) = (\<exists>r \<in> set (contacts st). r_user_id r = userId \<and> r_id r = contactId)"
  by (auto simp add: deleteContact_def db_deleteContact_def Let_def filter_empty_conv)

lemma owner_rows_determine:
  assumes "filter (\<lambda>r. r_user_id r = userId) (contacts st') = filter (\<lambda>r. r_user_id r = userId) (contacts st)"
  shows "getUserContacts st' userId = getUserContacts st userId"
    and "searchContacts st' userId query = searchContacts st userId query"
    and "current_data st' userId dt_contact contactId = current_data st userId dt_contact contactId"
proof -
  show g: "getUserContacts st' userId = getUserContacts st userId"
    using assms by (simp add: getUserContacts_def db_getUserContacts_def)
  have split: "filter (\<lambda>r. r_user_id r = userId \<and> P r) tbl = filter P (filter (\<lambda>r. r_user_id r = userId) tbl)"
    for P and tbl :: "contact_row list"
    by (simp add: conj_commute)
  show "searchContacts st' userId query = searchContacts st userId query"
    unfolding searchContacts_def db_searchContacts_def Let_def split
    using assms by simp
  show "current_data st' userId dt_contact contactId = current_data st userId dt_contact contactId"
    using g by (simp add: current_data_def)
qed

text \<open>
  Claim C4. Owner isolation: every contact \<^verbatim>\<open>getUserContacts\<close> or \<^verbatim>\<open>searchContacts\<close>
  returns to an owner is a row stored under that owner, never one of another owner; the
  record \<^verbatim>\<open>verifyDataIntegrity\<close> hashes for a contact is a row of the owner with the id
  asked for; \<^verbatim>\<open>deleteContact\<close> leaves every row of another owner in place and answers
  by the owner's rows alone; and the three reads depend on nothing but the owner's own
  rows. The table is arbitrary: ids may collide across owners.
\<close>

theorem owner_isolation:
  assumes "owner \<noteq> other"
  shows "(\<forall>c \<in> set (getUserContacts st owner). c_userId c = owner \<and> c_userId c \<noteq> other \<and>
            (\<exists>r \<in> set (contacts st). r_user_id r = owner \<and> c = mapRowToContact r))
       \<and> (\<forall>c \<in> set (searchContacts st owner query). c_userId c = owner \<and> c_userId c \<noteq> other \<and>
            (\<exists>r \<in> set (contacts st). r_user_id r = owner \<and> c = mapRowToContact r))
       \<and> (\<forall>data. current_data st owner dt_contact contactId = Some data \<longrightarrow>
            (\<exists>r \<in> set (contacts st). r_user_id r = owner \<and> r_user_id r \<noteq> other \<and> r_id r = contactId \<and>
               data = contact_js (mapRowToContact r)))
       \<and> filter (\<lambda>r. r_user_id r = other) (contacts (snd (deleteContact st rt owner contactId)))
           = filter (\<lambda>r. r_user_id r = other) (contacts st)
       \<and> (fst (deleteContact st rt owner contactId) \<longleftrightarrow> (\<exists>r \<in> set (contacts st). r_user_id r = owner \<and> r_id r = contactId))
       \<and> (\<forall>st'. filter (\<lambda>r. r_user_id r = owner) (contacts st') = filter (\<lambda>r. r_user_id r = owner) (contacts st) \<longrightarrow>
            getUserContacts st' owner = getUserContacts st owner \<and>
            searchContacts st' owner query = searchContacts st owner query \<and>
            current_data st' owner dt_contact contactId = current_data st owner dt_contact contactId)"
proof -
  have a: "\<forall>c \<in> set (getUserContacts st owner). c_userId c = owner \<and> c_userId c \<noteq> other \<and>
            (\<exists>r \<in> set (contacts st). r_user_id r = owner \<and> c = mapRowToContact r)"
    using assms by (auto simp add: getUserContacts_rows)
  have b: "\<forall>c \<in> set (searchContacts st owner query). c_userId c = owner \<and> c_userId c \<noteq> other \<and>
            (\<exists>r \<in> set (contacts st). r_user_id r = owner \<and> c = mapRowToContact r)"
    using assms searchContacts_rows[of st owner query] by auto
  have c: "\<forall>data. current_data st owner dt_contact contactId = Some data \<longrightarrow>
            (\<exists>r \<in> set (contacts st). r_user_id r = owner \<and> r_user_id r \<noteq> other \<and> r_id r = contactId \<and>
               data = contact_js (mapRowToContact r))"
    using assms current_data_contact[of st owner contactId] by blast
  have d: "filter (\<lambda>r. r_user_id r = other) (contacts (snd (deleteContact st rt owner contactId)))
           = filter (\<lambda>r. r_user_id r = other) (contacts st)"
    using assms by (auto simp add: deleteContact_contacts intro: filter_cong)
  have e: "fst (deleteContact st rt owner contactId) \<longleftrightarrow> (\<exists>r \<in> set (contacts st). r_user_id r = owner \<and> r_id r = contactId)"
    by (rule deleteContact_fst)
  have f: "\<forall>st'. filter (\<lambda>r. r_user_id r = owner) (contacts st') = filter (\<lambda>r. r_user_id r = owner) (contacts st) \<longrightarrow>
            getUserContacts st' owner = getUserContacts st owner \<and>
            searchContacts st' owner query = searchContacts st owner query \<and>
            current_data st' owner dt_contact contactId = current_data st owner dt_contact contactId"
    using owner_rows_determine by blast
  from a b c d e f show ?thesis by blast
qed


theorem owner_isolation_witness:
  "''u1'' \<noteq> ''u2'' \<and>
   map c_userId (getUserContacts two_owner_store ''u1'') = [''u1''] \<and>
   map c_userId (searchContacts two_owner_store ''u2'' ''unknown'') = [''u2''] \<and>
   fst (deleteContact two_owner_store demo_runtime ''u1'' ''1700000000000'') \<and>
   contacts (snd (deleteContact two_owner_store demo_runtime ''u1'' ''1700000000000''))
     = [new_contact_row 1700000000000 ''u2'' no_fields]"
proof -
  have ne: "''u1'' \<noteq> ''u2''" by simp
  have g: "map c_userId (getUserContacts two_owner_store ''u1'') = [''u1'']"
    by (simp add: getUserContacts_def db_getUserContacts_def two_owner_rows order_by_created_at_desc_def)
  have s: "map c_userId (searchContacts two_owner_store ''u2'' ''unknown'') = [''u2'']"
    using search_ex
    by (simp add: searchContacts_def db_searchContacts_def two_owner_rows order_by_created_at_desc_def)
  have d: "contacts (snd (deleteContact two_owner_store demo_runtime ''u1'' ''1700000000000''))
     = [new_contact_row 1700000000000 ''u2'' no_fields]"
    by (simp add: deleteContact_contacts two_owner_rows toString_def digit_char_def)
  have "fst (deleteContact two_owner_store demo_runtime ''u1'' ''1700000000000'')"
    using owner_isolation[OF ne, of two_owner_store "''unknown''" "''1700000000000''" demo_runtime]
    by (simp add: two_owner_rows toString_def digit_char_def)
  with ne g s d show ?thesis by simp
qed


section \<open>Verification after a delete\<close>

lemma sarah_deleted: "fst (deleteContact sarah_store demo_runtime ''u1'' ''1700000000000'')"
  by (simp add: deleteContact_fst sarah_contacts toString_def digit_char_def)

text \<open>
  Claim C7. After \<^verbatim>\<open>deleteContact(owner, id)\<close> has answered \<^verbatim>\<open>true\<close>,
  \<^verbatim>\<open>verifyDataIntegrity(owner, 'contact', id)\<close> fails at its relational read with
  \<^verbatim>\<open>Data not found in PostgreSQL\<close>: in every store whose contacts table is the one the delete
  left (whatever the ledger holds) and for every answer of the ledger to a query.
\<close>

theorem verify_after_delete:
  assumes "fst (deleteContact st rt userId contactId)"
    and "contacts st' = contacts (snd (deleteContact st rt userId contactId))"
  shows "verifyDataIntegrity st' rt' userId dt_contact contactId = Inl DataNotFound"
proof -
  have "contacts st' = filter (\<lambda>r. \<not> (r_user_id r = userId \<and> r_id r = contactId)) (contacts st)"
    using assms(2) by (simp add: deleteContact_contacts)
  then have "\<forall>c \<in> set (getUserContacts st' userId). c_id c \<noteq> contactId"
    by (auto simp add: getUserContacts_rows)
  then have "find (\<lambda>c. c_id c = contactId) (getUserContacts st' userId) = None"
    by (simp add: find_None_iff)
  then show ?thesis
    by (simp add: verifyDataIntegrity_def current_data_def)
qed

theorem verify_after_delete_witness:
  "fst (deleteContact sarah_store demo_runtime ''u1'' ''1700000000000'') \<and>
   verifyDataIntegrity (snd (deleteContact sarah_store demo_runtime ''u1'' ''1700000000000''))
     (demo_runtime\<lparr> queryEntities := \<lambda>query k. [delete_marker demo_runtime ''u1'' ''1700000000000''] \<rparr>)
     ''u1'' dt_contact ''1700000000000'' = Inl DataNotFound"
  using sarah_deleted verify_after_delete[OF sarah_deleted refl]
  by simp

section \<open>The ledger entry of a delete\<close>





section \<open>Builder applications\<close>

lemma new_builder_user [simp]: "br_user_id (new_builder_row t rnd u d) = take 255 u"
  by (simp add: new_builder_row_def)

lemma new_builder_id [simp]: "br_id (new_builder_row t rnd u d) = take 255 (builder_id t rnd)"
  by (simp add: new_builder_row_def)

lemma mapRow_builder [simp]:
  "bb_id (mapRowToBaseBuilder r) = br_id r"
  "bb_userId (mapRowToBaseBuilder r) = br_user_id r"
  by (simp_all add: mapRowToBaseBuilder_def)

lemma addBaseBuilder_accepted:
  assumes "builder_row_error (builder_id (now rt) (random9 rt)) userId builderData = None"
  shows "take 255 (builder_id (now rt) (random9 rt)) \<notin> br_id ` set (base_builders st) \<Longrightarrow>
         addBaseBuilder st rt userId builderData =
           (Inr (mapRowToBaseBuilder (new_builder_row (now rt) (random9 rt) userId builderData)),
            st\<lparr> base_builders := base_builders st @ [new_builder_row (now rt) (random9 rt) userId builderData],
                golem := golem st @
                  [hash_entity rt
                     \<lparr> h_id = ''builder_'' @ toString (now rt) @ ''_'' @ random9 rt,
                       h_dataType = dt_base_builder,
                       h_originalId = take 255 (builder_id (now rt) (random9 rt)),
                       h_userId = userId,
                       h_sha256Hash = hash_of rt (builder_js
                         (mapRowToBaseBuilder (new_builder_row (now rt) (random9 rt) userId builderData))),
                       h_ipfsHash = None,
                       h_createdAt = now rt,
                       h_verified = True \<rparr>] \<rparr>)"
    and "take 255 (builder_id (now rt) (random9 rt)) \<in> br_id ` set (base_builders st) \<Longrightarrow>
         addBaseBuilder st rt userId builderData = (Inl (UniqueViolation ''base_builders_pkey''), st)"
  using assms by (simp_all add: addBaseBuilder_def createBaseBuilder_def Let_def storeHashInGolem_def)

lemma addBaseBuilder_refused:
  "builder_row_error (builder_id (now rt) (random9 rt)) userId builderData = Some e \<Longrightarrow>
   addBaseBuilder st rt userId builderData = (Inl e, st)"
  by (simp add: addBaseBuilder_def createBaseBuilder_def)

lemma addBaseBuilder_ids_only:
  "br_id ` set (base_builders st') = br_id ` set (base_builders st) \<Longrightarrow>
   fst (addBaseBuilder st' rt userId builderData) = fst (addBaseBuilder st rt userId builderData)"
  by (cases "builder_row_error (builder_id (now rt) (random9 rt)) userId builderData")
     (simp_all add: addBaseBuilder_def createBaseBuilder_def Let_def)

lemma first_row_kept:
  "db_getBaseBuilderByUserId tbl userId = Some b \<Longrightarrow> db_getBaseBuilderByUserId (tbl @ rows) userId = Some b"
  by (auto simp add: db_getBaseBuilderByUserId_def split: list.splits)

lemma demo_builder_accepted:
  "builder_row_error (builder_id 1700000000000 ''k3j9x0q2z'') ''u2'' demo_builder = None"
  "builder_row_error (builder_id 1700000000001 ''k3j9x0q2z'') ''u2'' demo_builder = None"
  by (simp_all add: builder_row_error_def server_check_defs demo_builder_def builder_id_def
        toString_def digit_char_def)

lemma demo_builder_ids:
  "take 255 (builder_id 1700000000000 ''k3j9x0q2z'') = ''bb_1700000000000_k3j9x0q2z''"
  "take 255 (builder_id 1700000000001 ''k3j9x0q2z'') = ''bb_1700000000001_k3j9x0q2z''"
  by (simp_all add: builder_id_def toString_def digit_char_def)

lemma builder_rows:
  "base_builders builder_store = [new_builder_row 1700000000000 ''k3j9x0q2z'' ''u2'' demo_builder]"
  by (simp add: builder_store_def addBaseBuilder_def createBaseBuilder_def Let_def storeHashInGolem_def
        empty_store_def demo_runtime_def demo_builder_accepted)

lemma builder_first:
  "getBaseBuilderByUserId builder_store ''u2''
     = Some (mapRowToBaseBuilder (new_builder_row 1700000000000 ''k3j9x0q2z'' ''u2'' demo_builder))"
  by (simp add: getBaseBuilderByUserId_def db_getBaseBuilderByUserId_def builder_rows)

lemma later_clock: "now later_runtime = 1700000000001" "random9 later_runtime = ''k3j9x0q2z''"
  by (simp_all add: later_runtime_def demo_runtime_def)

lemma later_accepted:
  "builder_row_error (builder_id (now later_runtime) (random9 later_runtime)) ''u2'' demo_builder = None"
  by (simp only: later_clock demo_builder_accepted)

lemma later_fresh:
  "take 255 (builder_id (now later_runtime) (random9 later_runtime)) \<notin> br_id ` set (base_builders builder_store)"
  by (simp add: builder_rows later_clock demo_builder_ids)

text \<open>
  Claim C1, as stated, fails: for an owner whose application is stored, a second
  \<^verbatim>\<open>addBaseBuilder\<close> succeeds and the table then holds two applications of that owner.
\<close>

theorem addBaseBuilder_twice_counterexample:
  "getBaseBuilderByUserId builder_store ''u2''
     = Some (mapRowToBaseBuilder (new_builder_row 1700000000000 ''k3j9x0q2z'' ''u2'' demo_builder)) \<and>
   fst (addBaseBuilder builder_store later_runtime ''u2'' demo_builder)
     = Inr (mapRowToBaseBuilder (new_builder_row 1700000000001 ''k3j9x0q2z'' ''u2'' demo_builder)) \<and>
   map br_user_id (base_builders (snd (addBaseBuilder builder_store later_runtime ''u2'' demo_builder)))
     = [''u2'', ''u2'']"
  using addBaseBuilder_accepted(1)[OF later_accepted later_fresh] builder_first
  by (simp add: builder_rows later_clock)

text \<open>
  Claim C1, amended. \<^verbatim>\<open>addBaseBuilder\<close> reads nothing before its insert, and the outcome of
  a call depends on the table through the identifiers of its rows only. For an owner who
  has a stored application and a call whose values the relational server takes (no NUL
  character, no value longer than its column, a value in every \<^verbatim>\<open>NOT NULL\<close> column): when
  the generated identifier is free, the call returns the new application, appends its row
  to the table, and appends to the ledger one record of kind \<^verbatim>\<open>base_builder\<close> for that
  owner whose \<open>originalId\<close> is the new identifier and whose digest is that of the returned
  application; the contacts are untouched, the owner (whose id fits the column) has one
  row more, and \<^verbatim>\<open>getBaseBuilderByUserId\<close> still returns the first application. When the
  generated identifier is taken, the call fails with the primary key violation; when the
  server refuses a value, it fails with the server's error. A failed call changes nothing.
\<close>

theorem addBaseBuilder_no_owner_check:
  assumes "getBaseBuilderByUserId st userId = Some firstApplication"
  shows "(builder_row_error (builder_id (now rt) (random9 rt)) userId builderData = None \<longrightarrow>
          (br_id (new_builder_row (now rt) (random9 rt) userId builderData) \<notin> br_id ` set (base_builders st) \<longrightarrow>
             addBaseBuilder st rt userId builderData =
               (Inr (mapRowToBaseBuilder (new_builder_row (now rt) (random9 rt) userId builderData)),
                st\<lparr> base_builders := base_builders st @ [new_builder_row (now rt) (random9 rt) userId builderData],
                    golem := golem st @
                      [hash_entity rt
                         \<lparr> h_id = ''builder_'' @ toString (now rt) @ ''_'' @ random9 rt,
                           h_dataType = dt_base_builder,
                           h_originalId = br_id (new_builder_row (now rt) (random9 rt) userId builderData),
                           h_userId = userId,
                           h_sha256Hash = hash_of rt (builder_js
                             (mapRowToBaseBuilder (new_builder_row (now rt) (random9 rt) userId builderData))),
                           h_ipfsHash = None,
                           h_createdAt = now rt,
                           h_verified = True \<rparr>] \<rparr>) \<and>
             contacts (snd (addBaseBuilder st rt userId builderData)) = contacts st \<and>
             (length userId \<le> 255 \<longrightarrow>
                length (filter (\<lambda>r. br_user_id r = userId)
                          (base_builders (snd (addBaseBuilder st rt userId builderData))))
                  = Suc (length (filter (\<lambda>r. br_user_id r = userId) (base_builders st)))) \<and>
             getBaseBuilderByUserId (snd (addBaseBuilder st rt userId builderData)) userId = Some firstApplication) \<and>
          (br_id (new_builder_row (now rt) (random9 rt) userId builderData) \<in> br_id ` set (base_builders st) \<longrightarrow>
             addBaseBuilder st rt userId builderData = (Inl (UniqueViolation ''base_builders_pkey''), st)))
       \<and> (\<forall>e. builder_row_error (builder_id (now rt) (random9 rt)) userId builderData = Some e \<longrightarrow>
             addBaseBuilder st rt userId builderData = (Inl e, st))
       \<and> (\<forall>st'. br_id ` set (base_builders st') = br_id ` set (base_builders st) \<longrightarrow>
             fst (addBaseBuilder st' rt userId builderData) = fst (addBaseBuilder st rt userId builderData))"
proof -
  let ?row = "new_builder_row (now rt) (random9 rt) userId builderData"
  let ?err = "builder_row_error (builder_id (now rt) (random9 rt)) userId builderData"
  let ?res = "addBaseBuilder st rt userId builderData"
  let ?st' = "st\<lparr> base_builders := base_builders st @ [?row],
                    golem := golem st @
                      [hash_entity rt
                         \<lparr> h_id = ''builder_'' @ toString (now rt) @ ''_'' @ random9 rt,
                           h_dataType = dt_base_builder,
                           h_originalId = br_id ?row,
                           h_userId = userId,
                           h_sha256Hash = hash_of rt (builder_js (mapRowToBaseBuilder ?row)),
                           h_ipfsHash = None,
                           h_createdAt = now rt,
                           h_verified = True \<rparr>] \<rparr>"
  have fresh: "?res = (Inr (mapRowToBaseBuilder ?row), ?st') \<and>
             contacts (snd ?res) = contacts st \<and>
             (length userId \<le> 255 \<longrightarrow>
                length (filter (\<lambda>r. br_user_id r = userId) (base_builders (snd ?res)))
                  = Suc (length (filter (\<lambda>r. br_user_id r = userId) (base_builders st)))) \<and>
             getBaseBuilderByUserId (snd ?res) userId = Some firstApplication"
    if acc: "?err = None" and f: "br_id ?row \<notin> br_id ` set (base_builders st)"
  proof -
    from f have f': "take 255 (builder_id (now rt) (random9 rt)) \<notin> br_id ` set (base_builders st)"
      by simp
    have r: "?res = (Inr (mapRowToBaseBuilder ?row), ?st')"
      using addBaseBuilder_accepted(1)[OF acc f'] by simp
    have g: "getBaseBuilderByUserId (snd ?res) userId = Some firstApplication"
      using assms by (simp add: r getBaseBuilderByUserId_def first_row_kept)
    show ?thesis using r g by simp
  qed
  have taken: "?res = (Inl (UniqueViolation ''base_builders_pkey''), st)"
    if acc: "?err = None" and t: "br_id ?row \<in> br_id ` set (base_builders st)"
  proof -
    from t have "take 255 (builder_id (now rt) (random9 rt)) \<in> br_id ` set (base_builders st)"
      by simp
    with acc show ?thesis by (rule addBaseBuilder_accepted(2))
  qed
  have refused: "?res = (Inl e, st)" if "?err = Some e" for e
    using that by (rule addBaseBuilder_refused)
  have ids: "fst (addBaseBuilder st' rt userId builderData) = fst ?res"
    if "br_id ` set (base_builders st') = br_id ` set (base_builders st)" for st'
    using that by (rule addBaseBuilder_ids_only)
  from fresh taken refused ids show ?thesis by blast
qed

theorem addBaseBuilder_no_owner_check_witness:
  "getBaseBuilderByUserId builder_store ''u2''
     = Some (mapRowToBaseBuilder (new_builder_row 1700000000000 ''k3j9x0q2z'' ''u2'' demo_builder)) \<and>
   builder_row_error (builder_id (now later_runtime) (random9 later_runtime)) ''u2'' demo_builder = None \<and>
   map br_id (base_builders (snd (addBaseBuilder builder_store later_runtime ''u2'' demo_builder)))
     = [''bb_1700000000000_k3j9x0q2z'', ''bb_1700000000001_k3j9x0q2z''] \<and>
   map (\<lambda>e. (h_userId (e_data e), h_originalId (e_data e)))
       (golem (snd (addBaseBuilder builder_store later_runtime ''u2'' demo_builder)))
     = map (\<lambda>e. (h_userId (e_data e), h_originalId (e_data e))) (golem builder_store)
         @ [(''u2'', ''bb_1700000000001_k3j9x0q2z'')] \<and>
   length (filter (\<lambda>r. br_user_id r = ''u2'')
       (base_builders (snd (addBaseBuilder builder_store later_runtime ''u2'' demo_builder)))) = 2 \<and>
   getBaseBuilderByUserId (snd (addBaseBuilder builder_store later_runtime ''u2'' demo_builder)) ''u2''
     = Some (mapRowToBaseBuilder (new_builder_row 1700000000000 ''k3j9x0q2z'' ''u2'' demo_builder))"
proof -
  have f: "br_id (new_builder_row (now later_runtime) (random9 later_runtime) ''u2'' demo_builder)
             \<notin> br_id ` set (base_builders builder_store)"
    using later_fresh by simp
  note t = addBaseBuilder_no_owner_check[OF builder_first, of later_runtime demo_builder,
      THEN conjunct1, rule_format, OF later_accepted, THEN conjunct1, rule_format, OF f]
  from t have r: "addBaseBuilder builder_store later_runtime ''u2'' demo_builder =
     (Inr (mapRowToBaseBuilder (new_builder_row (now later_runtime) (random9 later_runtime) ''u2'' demo_builder)),
      builder_store\<lparr> base_builders := base_builders builder_store
            @ [new_builder_row (now later_runtime) (random9 later_runtime) ''u2'' demo_builder],
          golem := golem builder_store @
            [hash_entity later_runtime
               \<lparr> h_id = ''builder_'' @ toString (now later_runtime) @ ''_'' @ random9 later_runtime,
                 h_dataType = dt_base_builder,
                 h_originalId = br_id (new_builder_row (now later_runtime) (random9 later_runtime) ''u2'' demo_builder),
                 h_userId = ''u2'',
                 h_sha256Hash = hash_of later_runtime (builder_js
                   (mapRowToBaseBuilder (new_builder_row (now later_runtime) (random9 later_runtime) ''u2'' demo_builder))),
                 h_ipfsHash = None,
                 h_createdAt = now later_runtime,
                 h_verified = True \<rparr>] \<rparr>)"
    by (rule conjunct1)
  have g: "getBaseBuilderByUserId (snd (addBaseBuilder builder_store later_runtime ''u2'' demo_builder)) ''u2''
     = Some (mapRowToBaseBuilder (new_builder_row 1700000000000 ''k3j9x0q2z'' ''u2'' demo_builder))"
    using t by blast
  have rows: "map br_id (base_builders (snd (addBaseBuilder builder_store later_runtime ''u2'' demo_builder)))
     = [''bb_1700000000000_k3j9x0q2z'', ''bb_1700000000001_k3j9x0q2z'']"
    by (simp add: r builder_rows later_clock demo_builder_ids)
  have led: "map (\<lambda>e. (h_userId (e_data e), h_originalId (e_data e)))
       (golem (snd (addBaseBuilder builder_store later_runtime ''u2'' demo_builder)))
     = map (\<lambda>e. (h_userId (e_data e), h_originalId (e_data e))) (golem builder_store)
         @ [(''u2'', ''bb_1700000000001_k3j9x0q2z'')]"
    by (simp add: r hash_entity_def later_clock demo_builder_ids)
  have cnt: "length (filter (\<lambda>r. br_user_id r = ''u2'')
       (base_builders (snd (addBaseBuilder builder_store later_runtime ''u2'' demo_builder)))) = 2"
    by (simp add: r builder_rows)
  from builder_first later_accepted rows led cnt g show ?thesis by (simp only:)
qed

section \<open>Verification of an application\<close>

lemma ledger_query_inj:
  "ledger_query dt userId originalId = ledger_query dt userId originalId' \<longleftrightarrow> originalId = originalId'"
  by (simp add: ledger_query_def)

lemma first_application:
  "db_getBaseBuilderByUserId tbl userId = Some b \<Longrightarrow>
   \<exists>row \<in> set tbl. br_user_id row = userId \<and> b = mapRowToBaseBuilder row"
proof -
  assume g: "db_getBaseBuilderByUserId tbl userId = Some b"
  then obtain row rest where f: "filter (\<lambda>r. br_user_id r = userId) tbl = row # rest"
    and b: "b = mapRowToBaseBuilder row"
    by (auto simp add: db_getBaseBuilderByUserId_def split: list.splits)
  have "row \<in> set (filter (\<lambda>r. br_user_id r = userId) tbl)"
    by (simp only: f) simp
  then have "row \<in> set tbl \<and> br_user_id row = userId" by simp
  with b show ?thesis by blast
qed

lemma no_application:
  "db_getBaseBuilderByUserId tbl userId = None \<longleftrightarrow> (\<forall>row \<in> set tbl. br_user_id row \<noteq> userId)"
proof
  assume "db_getBaseBuilderByUserId tbl userId = None"
  then have "filter (\<lambda>r. br_user_id r = userId) tbl = []"
    by (simp add: db_getBaseBuilderByUserId_def split: list.splits)
  then show "\<forall>row \<in> set tbl. br_user_id row \<noteq> userId"
    by (simp add: filter_empty_conv)
next
  assume "\<forall>row \<in> set tbl. br_user_id row \<noteq> userId"
  then have "filter (\<lambda>r. br_user_id r = userId) tbl = []"
    by (simp add: filter_empty_conv)
  then show "db_getBaseBuilderByUserId tbl userId = None"
    by (simp add: db_getBaseBuilderByUserId_def)
qed

text \<open>
  Claim C10. For the kind \<^verbatim>\<open>base_builder\<close>, \<^verbatim>\<open>verifyDataIntegrity\<close> selects the relational
  record by the owner alone. The application \<^verbatim>\<open>getBaseBuilderByUserId\<close> returns is a row of
  the table whose owner is the given one; there is none exactly when the owner has no
  row; when the owner has a single stored application, that is the one; and the record
  read depends on the owner's rows only. The record \<^verbatim>\<open>verifyDataIntegrity\<close> hashes is that
  application for every \<open>originalId\<close>, so two calls that differ in \<open>originalId\<close> only report
  the same \<open>currentHash\<close>; \<open>originalId\<close> enters the ledger query, which differs whenever
  \<open>originalId\<close> does.
\<close>

theorem verify_builder_ignores_originalId:
  "(\<forall>b. getBaseBuilderByUserId st userId = Some b \<longrightarrow>
        bb_userId b = userId \<and>
        (\<exists>row \<in> set (base_builders st). br_user_id row = userId \<and> b = mapRowToBaseBuilder row))
   \<and> (getBaseBuilderByUserId st userId = None \<longleftrightarrow>
        (\<forall>row \<in> set (base_builders st). br_user_id row \<noteq> userId))
   \<and> (\<forall>row. filter (\<lambda>r. br_user_id r = userId) (base_builders st) = [row] \<longrightarrow>
        getBaseBuilderByUserId st userId = Some (mapRowToBaseBuilder row))
   \<and> (\<forall>st'. filter (\<lambda>r. br_user_id r = userId) (base_builders st')
               = filter (\<lambda>r. br_user_id r = userId) (base_builders st) \<longrightarrow>
        current_data st' userId dt_base_builder originalId = current_data st userId dt_base_builder originalId)
   \<and> current_data st userId dt_base_builder originalId
     = map_option builder_js (getBaseBuilderByUserId st userId)
   \<and> current_data st userId dt_base_builder originalId = current_data st userId dt_base_builder originalId'
   \<and> (\<forall>b. getBaseBuilderByUserId st userId = Some b \<longrightarrow>
         verifyDataIntegrity st rt userId dt_base_builder originalId =
           (case fst (retry_loop (queryEntities rt (ledger_query dt_base_builder userId originalId)) [] 0 0) of
              [] \<Rightarrow> Inl (HashNotFound 3)
            | storedHashData # rest \<Rightarrow>
                Inr \<lparr> isValid = (hash_of rt (builder_js b) = h_sha256Hash storedHashData),
                      storedHash = h_sha256Hash storedHashData,
                      currentHash = hash_of rt (builder_js b) \<rparr>))
   \<and> (getBaseBuilderByUserId st userId = None \<longrightarrow>
         verifyDataIntegrity st rt userId dt_base_builder originalId = Inl DataNotFound)
   \<and> (\<forall>v v'. verifyDataIntegrity st rt userId dt_base_builder originalId = Inr v \<longrightarrow>
         verifyDataIntegrity st rt userId dt_base_builder originalId' = Inr v' \<longrightarrow>
         currentHash v = currentHash v')
   \<and> (ledger_query dt_base_builder userId originalId = ledger_query dt_base_builder userId originalId'
         \<longleftrightarrow> originalId = originalId')"
proof -
  have r1: "\<forall>b. getBaseBuilderByUserId st userId = Some b \<longrightarrow>
        bb_userId b = userId \<and>
        (\<exists>row \<in> set (base_builders st). br_user_id row = userId \<and> b = mapRowToBaseBuilder row)"
  proof (intro allI impI)
    fix b
    assume "getBaseBuilderByUserId st userId = Some b"
    then have "db_getBaseBuilderByUserId (base_builders st) userId = Some b"
      by (simp add: getBaseBuilderByUserId_def)
    then have e: "\<exists>row \<in> set (base_builders st). br_user_id row = userId \<and> b = mapRowToBaseBuilder row"
      by (rule first_application)
    then have "bb_userId b = userId" by auto
    with e show "bb_userId b = userId \<and>
        (\<exists>row \<in> set (base_builders st). br_user_id row = userId \<and> b = mapRowToBaseBuilder row)"
      by blast
  qed
  have r2: "getBaseBuilderByUserId st userId = None \<longleftrightarrow>
        (\<forall>row \<in> set (base_builders st). br_user_id row \<noteq> userId)"
    unfolding getBaseBuilderByUserId_def by (rule no_application)
  have r3: "\<forall>row. filter (\<lambda>r. br_user_id r = userId) (base_builders st) = [row] \<longrightarrow>
        getBaseBuilderByUserId st userId = Some (mapRowToBaseBuilder row)"
    by (simp add: getBaseBuilderByUserId_def db_getBaseBuilderByUserId_def)
  have r4: "\<forall>st'. filter (\<lambda>r. br_user_id r = userId) (base_builders st')
               = filter (\<lambda>r. br_user_id r = userId) (base_builders st) \<longrightarrow>
        current_data st' userId dt_base_builder originalId = current_data st userId dt_base_builder originalId"
    by (simp add: current_data_def db_getBaseBuilderByUserId_def)
  have a: "current_data st userId dt_base_builder oid = map_option builder_js (getBaseBuilderByUserId st userId)" for oid
    by (simp add: current_data_def getBaseBuilderByUserId_def)
  have c: "verifyDataIntegrity st rt userId dt_base_builder oid =
           (case fst (retry_loop (queryEntities rt (ledger_query dt_base_builder userId oid)) [] 0 0) of
              [] \<Rightarrow> Inl (HashNotFound 3)
            | storedHashData # rest \<Rightarrow>
                Inr \<lparr> isValid = (hash_of rt (builder_js b) = h_sha256Hash storedHashData),
                      storedHash = h_sha256Hash storedHashData,
                      currentHash = hash_of rt (builder_js b) \<rparr>)"
    if "getBaseBuilderByUserId st userId = Some b" for b oid
    using that by (simp add: verifyDataIntegrity_def a Let_def maxAttempts_def split: list.splits)
  have d: "getBaseBuilderByUserId st userId = None \<longrightarrow>
         verifyDataIntegrity st rt userId dt_base_builder originalId = Inl DataNotFound"
    by (simp add: verifyDataIntegrity_def a)
  have e: "currentHash v = currentHash v'"
    if v: "verifyDataIntegrity st rt userId dt_base_builder originalId = Inr v"
      and v': "verifyDataIntegrity st rt userId dt_base_builder originalId' = Inr v'" for v v'
  proof (cases "getBaseBuilderByUserId st userId")
    case None
    with d v show ?thesis by simp
  next
    case (Some b)
    from v c[OF Some, of originalId] have "currentHash v = hash_of rt (builder_js b)"
      by (auto split: list.splits)
    moreover from v' c[OF Some, of originalId'] have "currentHash v' = hash_of rt (builder_js b)"
      by (auto split: list.splits)
    ultimately show ?thesis by simp
  qed
  have old: "current_data st userId dt_base_builder originalId
     = map_option builder_js (getBaseBuilderByUserId st userId)
   \<and> current_data st userId dt_base_builder originalId = current_data st userId dt_base_builder originalId'
   \<and> (\<forall>b. getBaseBuilderByUserId st userId = Some b \<longrightarrow>
         verifyDataIntegrity st rt userId dt_base_builder originalId =
           (case fst (retry_loop (queryEntities rt (ledger_query dt_base_builder userId originalId)) [] 0 0) of
              [] \<Rightarrow> Inl (HashNotFound 3)
            | storedHashData # rest \<Rightarrow>
                Inr \<lparr> isValid = (hash_of rt (builder_js b) = h_sha256Hash storedHashData),
                      storedHash = h_sha256Hash storedHashData,
                      currentHash = hash_of rt (builder_js b) \<rparr>))
   \<and> (getBaseBuilderByUserId st userId = None \<longrightarrow>
         verifyDataIntegrity st rt userId dt_base_builder originalId = Inl DataNotFound)
   \<and> (\<forall>v v'. verifyDataIntegrity st rt userId dt_base_builder originalId = Inr v \<longrightarrow>
         verifyDataIntegrity st rt userId dt_base_builder originalId' = Inr v' \<longrightarrow>
         currentHash v = currentHash v')
   \<and> (ledger_query dt_base_builder userId originalId = ledger_query dt_base_builder userId originalId'
         \<longleftrightarrow> originalId = originalId')"
    using a[of originalId] a[of originalId'] c d e ledger_query_inj[of dt_base_builder userId originalId originalId']
    by (simp (no_asm_simp))
  note o4 = conjI[OF r4 old]
  note o3 = conjI[OF r3 o4]
  note o2 = conjI[OF r2 o3]
  show ?thesis by (rule conjI[OF r1 o2])
qed

lemma builder_golem:
  "map e_data (golem builder_store) =
     [\<lparr> h_id = ''builder_'' @ toString 1700000000000 @ ''_'' @ ''k3j9x0q2z'',
        h_dataType = dt_base_builder,
        h_originalId = ''bb_1700000000000_k3j9x0q2z'',
        h_userId = ''u2'',
        h_sha256Hash = hash_of demo_runtime
           (builder_js (mapRowToBaseBuilder (new_builder_row 1700000000000 ''k3j9x0q2z'' ''u2'' demo_builder))),
        h_ipfsHash = None,
        h_createdAt = 1700000000000,
        h_verified = True \<rparr>]"
proof -
  have acc: "builder_row_error (builder_id (now demo_runtime) (random9 demo_runtime)) ''u2'' demo_builder = None"
    by (simp add: demo_runtime_def demo_builder_accepted)
  have f: "take 255 (builder_id (now demo_runtime) (random9 demo_runtime)) \<notin> br_id ` set (base_builders empty_store)"
    by (simp add: empty_store_def)
  have n: "now demo_runtime = 1700000000000" "random9 demo_runtime = ''k3j9x0q2z''"
    by (simp_all add: demo_runtime_def)
  show ?thesis
    unfolding builder_store_def addBaseBuilder_accepted(1)[OF acc f] n
    by (simp add: empty_store_def hash_entity_def demo_builder_ids)
qed

lemma anchored_hash: "hash_of anchored_runtime = hash_of demo_runtime"
  by (rule ext) (simp add: hash_of_def anchored_runtime_def)

lemma anchored_answers:
  "queryEntities anchored_runtime (ledger_query dt_base_builder ''u2'' originalId) k
     = (if originalId = ''bb_1700000000000_k3j9x0q2z'' then map e_data (golem builder_store) else [])"
  by (simp add: anchored_runtime_def ledger_query_inj)

theorem verify_builder_ignores_originalId_witness:
  "getBaseBuilderByUserId builder_store ''u2''
     = Some (mapRowToBaseBuilder (new_builder_row 1700000000000 ''k3j9x0q2z'' ''u2'' demo_builder)) \<and>
   bb_userId (mapRowToBaseBuilder (new_builder_row 1700000000000 ''k3j9x0q2z'' ''u2'' demo_builder)) = ''u2'' \<and>
   verifyDataIntegrity builder_store anchored_runtime ''u2'' dt_base_builder ''bb_1700000000000_k3j9x0q2z''
     = Inr \<lparr> isValid = True,
             storedHash = hash_of demo_runtime (builder_js
               (mapRowToBaseBuilder (new_builder_row 1700000000000 ''k3j9x0q2z'' ''u2'' demo_builder))),
             currentHash = hash_of demo_runtime (builder_js
               (mapRowToBaseBuilder (new_builder_row 1700000000000 ''k3j9x0q2z'' ''u2'' demo_builder))) \<rparr> \<and>
   verifyDataIntegrity builder_store anchored_runtime ''u2'' dt_base_builder ''another-id''
     = Inl (HashNotFound 3)"
proof -
  have a: "fst (retry_loop (queryEntities anchored_runtime
              (ledger_query dt_base_builder ''u2'' ''bb_1700000000000_k3j9x0q2z'')) [] 0 0)
           = map e_data (golem builder_store)"
    by (simp add: retry_loop_unfold anchored_answers builder_golem)
  have b: "fst (retry_loop (queryEntities anchored_runtime
              (ledger_query dt_base_builder ''u2'' ''another-id'')) [] 0 0) = []"
    by (simp add: retry_loop_unfold anchored_answers)
  note u = verify_builder_ignores_originalId[of builder_store "''u2''" "''another-id''"
      "''another-id''" anchored_runtime, THEN conjunct1, rule_format, OF builder_first, THEN conjunct1]
  note v1 = verify_builder_ignores_originalId[of builder_store "''u2''" "''bb_1700000000000_k3j9x0q2z''"
      "''another-id''" anchored_runtime, THEN conjunct2, THEN conjunct2, THEN conjunct2, THEN conjunct2,
      THEN conjunct2, THEN conjunct2, THEN conjunct1, rule_format, OF builder_first]
  note v2 = verify_builder_ignores_originalId[of builder_store "''u2''" "''another-id''"
      "''another-id''" anchored_runtime, THEN conjunct2, THEN conjunct2, THEN conjunct2, THEN conjunct2,
      THEN conjunct2, THEN conjunct2, THEN conjunct1, rule_format, OF builder_first]
  have c1: "verifyDataIntegrity builder_store anchored_runtime ''u2'' dt_base_builder ''bb_1700000000000_k3j9x0q2z''
     = Inr \<lparr> isValid = True,
             storedHash = hash_of demo_runtime (builder_js
               (mapRowToBaseBuilder (new_builder_row 1700000000000 ''k3j9x0q2z'' ''u2'' demo_builder))),
             currentHash = hash_of demo_runtime (builder_js
               (mapRowToBaseBuilder (new_builder_row 1700000000000 ''k3j9x0q2z'' ''u2'' demo_builder))) \<rparr>"
    unfolding v1 a builder_golem anchored_hash by simp
  have c2: "verifyDataIntegrity builder_store anchored_runtime ''u2'' dt_base_builder ''another-id''
     = Inl (HashNotFound 3)"
    unfolding v2 b by simp
  from builder_first u c1 c2 show ?thesis by (simp only:) 
qed

end
